theory Spec2Isabelle
  imports Main
begin

section \<open>Python values, exceptions and the runtime\<close>

text \<open>
  The webhook works on what \<^verbatim>\<open>json.loads\<close> returns: \<^verbatim>\<open>None\<close>, booleans, numbers,
  strings, lists and dicts. A dict is an association list read with \<open>map_of\<close>, in
  insertion order; a float is named by its \<^verbatim>\<open>repr\<close>. A \<^verbatim>\<open>str\<close> and a \<^verbatim>\<open>bytes\<close> are both
  a \<open>string\<close>.
\<close>

datatype json =
    JNull
  | JBool bool
  | JInt int
  | JFloat string
  | JString string
  | JArray "json list"
  | JObject "(string \<times> json) list"

text \<open>
  The exception classes the module raises, catches or lets through. The message of an
  \<^verbatim>\<open>AnymailWebhookValidationFailure\<close> is kept; its \<^verbatim>\<open>raised_from\<close> is not.
  \<^verbatim>\<open>UnicodeDecodeError\<close> and \<^verbatim>\<open>JSONDecodeError\<close> are subclasses of \<^verbatim>\<open>ValueError\<close>, so
  an \<^verbatim>\<open>except ValueError\<close> catches the three. \<^verbatim>\<open>RecursionError\<close>, which \<^verbatim>\<open>json.loads\<close> raises
  on a text nested too deep, is a \<^verbatim>\<open>RuntimeError\<close>: neither a \<^verbatim>\<open>ValueError\<close> nor a
  \<^verbatim>\<open>TypeError\<close>.
\<close>

datatype py_error =
    AnymailWebhookValidationFailure string
  | TypeError
  | ValueError
  | UnicodeDecodeError
  | JSONDecodeError
  | KeyError
  | AttributeError
  | LookupError
  | NotImplementedError
  | RecursionError
  | OtherError string

fun isinstance_ValueError :: "py_error \<Rightarrow> bool" where
  "isinstance_ValueError ValueError = True"
| "isinstance_ValueError UnicodeDecodeError = True"
| "isinstance_ValueError JSONDecodeError = True"
| "isinstance_ValueError _ = False"

fun is_validation_failure :: "py_error \<Rightarrow> bool" where
  "is_validation_failure (AnymailWebhookValidationFailure _) = True"
| "is_validation_failure _ = False"

text \<open>Sequencing of steps that may raise: the first exception ends the computation.\<close>

definition bnd :: "py_error + 'a \<Rightarrow> ('a \<Rightarrow> py_error + 'b) \<Rightarrow> py_error + 'b" where
  "bnd m f = (case m of Inl e \<Rightarrow> Inl e | Inr x \<Rightarrow> f x)"

fun map_exn :: "('a \<Rightarrow> py_error + 'b) \<Rightarrow> 'a list \<Rightarrow> py_error + 'b list" where
  "map_exn f [] = Inr []"
| "map_exn f (x # xs) = bnd (f x) (\<lambda>y. bnd (map_exn f xs) (\<lambda>ys. Inr (y # ys)))"

text \<open>\<^verbatim>\<open>requests.Response\<close>, as far as the module reads it; \<^verbatim>\<open>datetime\<close>, by its ISO text.\<close>

record response =
  ok :: bool
  status_code :: int
  "text" :: string

datatype datetime = Datetime string

text \<open>
  What the module calls and does not define: \<^verbatim>\<open>json.loads\<close> on a \<^verbatim>\<open>str\<close>,
  \<^verbatim>\<open>bytes.decode\<close> (the bytes, then the codec's name), \<^verbatim>\<open>requests.get\<close>, Django's
  \<^verbatim>\<open>parse_datetime\<close>, \<^verbatim>\<open>repr\<close> of a value (which is also its \<^verbatim>\<open>str\<close> unless the value
  is a \<^verbatim>\<open>str\<close>) and \<^verbatim>\<open>repr\<close> of a \<^verbatim>\<open>bytes\<close>. Every theorem below holds for every
  runtime.
\<close>

record runtime =
  json_loads :: "string \<Rightarrow> py_error + json"
  bytes_decode :: "string \<Rightarrow> string \<Rightarrow> py_error + string"
  requests_get :: "json \<Rightarrow> py_error + response"
  parse_datetime :: "json \<Rightarrow> py_error + datetime option"
  repr :: "json \<Rightarrow> string"
  repr_bytes :: "string \<Rightarrow> string"

definition str :: "runtime \<Rightarrow> json \<Rightarrow> string" where
  "str rt v = (case v of JString s \<Rightarrow> s | _ \<Rightarrow> repr rt v)"

text \<open>\<^verbatim>\<open>json.loads(v)\<close> for a decoded value \<open>v\<close>: only a \<^verbatim>\<open>str\<close> is read.\<close>

definition json_loads_value :: "runtime \<Rightarrow> json \<Rightarrow> py_error + json" where
  "json_loads_value rt v = (case v of JString s \<Rightarrow> json_loads rt s | _ \<Rightarrow> Inl TypeError)"

text \<open>\<^verbatim>\<open>obj.get(key, default)\<close>: only a dict has the method.\<close>

definition dict_get :: "json \<Rightarrow> string \<Rightarrow> json \<Rightarrow> py_error + json" where
  "dict_get obj key dflt =
     (case obj of
        JObject kvs \<Rightarrow> Inr (case map_of kvs key of Some v \<Rightarrow> v | None \<Rightarrow> dflt)
      | _ \<Rightarrow> Inl AttributeError)"

text \<open>\<^verbatim>\<open>obj[key]\<close> with a \<^verbatim>\<open>str\<close> key: a dict without the key raises \<^verbatim>\<open>KeyError\<close>, every other
  value raises \<^verbatim>\<open>TypeError\<close>.\<close>

definition subscript :: "json \<Rightarrow> string \<Rightarrow> py_error + json" where
  "subscript obj key =
     (case obj of
        JObject kvs \<Rightarrow> (case map_of kvs key of Some v \<Rightarrow> Inr v | None \<Rightarrow> Inl KeyError)
      | _ \<Rightarrow> Inl TypeError)"

text \<open>\<^verbatim>\<open>for x in obj\<close>: the items of a list, the keys of a dict, the characters of a
  \<^verbatim>\<open>str\<close>; nothing else is iterable.\<close>

definition iterate :: "json \<Rightarrow> py_error + json list" where
  "iterate obj =
     (case obj of
        JArray xs \<Rightarrow> Inr xs
      | JObject kvs \<Rightarrow> Inr (map (\<lambda>kv. JString (fst kv)) kvs)
      | JString s \<Rightarrow> Inr (map (\<lambda>c. JString [c]) s)
      | _ \<Rightarrow> Inl TypeError)"

text \<open>\<^verbatim>\<open>obj.lower()\<close>: a method of \<^verbatim>\<open>str\<close> only; the letters A to Z are folded.\<close>

definition lower_char :: "char \<Rightarrow> char" where
  "lower_char c =
     (if 65 \<le> (of_char c :: nat) \<and> (of_char c :: nat) \<le> 90
      then char_of ((of_char c :: nat) + 32) else c)"

definition lower :: "json \<Rightarrow> py_error + string" where
  "lower obj = (case obj of JString s \<Rightarrow> Inr (map lower_char s) | _ \<Rightarrow> Inl AttributeError)"

section \<open>The request, the view and the effects of one request\<close>

text \<open>
  \<open>sns_message_attr\<close> is the attribute \<^verbatim>\<open>_sns_message\<close> that \<^verbatim>\<open>_parse_sns_message\<close> sets
  on the request: \<open>None\<close> while \<^verbatim>\<open>hasattr\<close> is false. \<open>META\<close> holds the transport headers.
\<close>

record request =
  body :: string
  encoding :: "string option"
  META :: "(string \<times> string) list"
  sns_message_attr :: "json option"

text \<open>
  Modelled from the spec: \<open>basic_auth\<close>, an attribute set by the base class in
  \<^verbatim>\<open>anymail/webhooks/base.py\<close>, which is not among the sources. It is the spec's "shared
  secret configured" capability, here the list of the secrets, empty when no
  \<^verbatim>\<open>WEBHOOK_SECRET\<close> is set. \<open>auto_confirm_enabled\<close> is the setting read in \<^verbatim>\<open>__init__\<close>
  (lines 18 to 23).
\<close>

record view =
  auto_confirm_enabled :: bool
  basic_auth :: "string list"

text \<open>
  Modelled from the spec: the constants of \<^verbatim>\<open>EventType\<close> and \<^verbatim>\<open>RejectReason\<close>, declared in
  \<^verbatim>\<open>anymail/signals.py\<close>, which is not among the sources. These are the ones the module
  uses, one per event type and reject reason of the spec's taxonomy.
\<close>

datatype EventType =
    EventType_SENT
  | EventType_REJECTED
  | EventType_FAILED
  | EventType_BOUNCED
  | EventType_DELIVERED
  | EventType_OPENED
  | EventType_CLICKED
  | EventType_COMPLAINED
  | EventType_UNKNOWN

datatype RejectReason =
    RejectReason_BOUNCED
  | RejectReason_BLOCKED
  | RejectReason_SPAM

text \<open>
  Modelled from the spec: the class \<^verbatim>\<open>AnymailTrackingEvent\<close> of \<^verbatim>\<open>anymail/signals.py\<close>, which
  is not among the sources. The fields are those of the spec's Normalized Event
  (\<open>esp_event\<close> is its \<open>raw_event\<close>), and a field no property sets is \<^verbatim>\<open>None\<close>.
\<close>

record AnymailTrackingEvent =
  event_type :: EventType
  timestamp :: "datetime option"
  event_id :: json
  esp_event :: json
  click_url :: json
  description :: json
  message_id :: json
  metadata :: json
  mta_response :: json
  recipient :: json
  reject_reason :: "RejectReason option"
  tags :: "json list"
  user_agent :: json

text \<open>
  The state one request runs in: the request object, and what the run has done so far:
  how often \<^verbatim>\<open>_parse_sns_message\<close> has called \<^verbatim>\<open>json.loads\<close> on the body, the URLs
  fetched with \<^verbatim>\<open>requests.get\<close>, and the events handed to the signal.
\<close>

record world =
  req :: request
  body_loads :: nat
  http_gets :: "json list"
  signals_sent :: "AnymailTrackingEvent list"

section \<open>AmazonSESBaseWebhookView\<close>

text \<open>\<^verbatim>\<open>_parse_sns_message\<close> (lines 25 to 35). The attribute is set only when the parse
  succeeds.\<close>

definition parse_sns_message :: "runtime \<Rightarrow> world \<Rightarrow> (py_error + json) \<times> world" where
  "parse_sns_message rt w =
     (case sns_message_attr (req w) of
        Some m \<Rightarrow> (Inr m, w)
      | None \<Rightarrow>
          (case bytes_decode rt (body (req w))
                  (case encoding (req w) of
                     None \<Rightarrow> ''utf-8''
                   | Some enc \<Rightarrow> if enc = [] then ''utf-8'' else enc) of
             Inl err \<Rightarrow>
               (if err = TypeError \<or> isinstance_ValueError err
                then Inl (AnymailWebhookValidationFailure
                            (''Malformed SNS message body '' @ repr_bytes rt (body (req w))))
                else Inl err, w)
           | Inr decoded \<Rightarrow>
               (case json_loads rt decoded of
                  Inl err \<Rightarrow>
                    (if err = TypeError \<or> isinstance_ValueError err
                     then Inl (AnymailWebhookValidationFailure
                                 (''Malformed SNS message body '' @ repr_bytes rt (body (req w))))
                     else Inl err,
                     w\<lparr>body_loads := Suc (body_loads w)\<rparr>)
                | Inr m \<Rightarrow>
                    (Inr m,
                     w\<lparr>req := (req w)\<lparr>sns_message_attr := Some m\<rparr>,
                       body_loads := Suc (body_loads w)\<rparr>))))"

text \<open>\<^verbatim>\<open>validate_request\<close> (lines 37 to 55).\<close>

definition validate_request :: "runtime \<Rightarrow> world \<Rightarrow> (py_error + unit) \<times> world" where
  \<open>validate_request rt w =
     (case parse_sns_message rt w of
        (Inl err, w') \<Rightarrow> (Inl err, w')
      | (Inr sns_message, w') \<Rightarrow>
          (let header_type =
                 (case map_of (META (req w')) ''HTTP_X_AMZ_SNS_MESSAGE_TYPE'' of
                    Some h \<Rightarrow> h | None \<Rightarrow> ''<<missing>>'')
           in case dict_get sns_message ''Type'' (JString ''<<missing>>'') of
                Inl err \<Rightarrow> (Inl err, w')
              | Inr body_type \<Rightarrow>
                  if JString header_type \<noteq> body_type then
                    (Inl (AnymailWebhookValidationFailure
                            (''SNS header "x-amz-sns-message-type: '' @ header_type
                               @ ''" doesn't match body "Type": "'' @ str rt body_type @ ''"'')), w')
                  else if header_type \<notin> set [''Notification'', ''SubscriptionConfirmation'',
                                               ''UnsubscribeConfirmation''] then
                    (Inl (AnymailWebhookValidationFailure
                            (''Unknown SNS message type ''
                               @ [CHR 0x27] @ header_type @ [CHR 0x27])), w')
                  else
                    (let header_id =
                           (case map_of (META (req w')) ''HTTP_X_AMZ_SNS_MESSAGE_ID'' of
                              Some h \<Rightarrow> h | None \<Rightarrow> ''<<missing>>'')
                     in case dict_get sns_message ''MessageId'' (JString ''<<missing>>'') of
                          Inl err \<Rightarrow> (Inl err, w')
                        | Inr body_id \<Rightarrow>
                            if JString header_id \<noteq> body_id then
                              (Inl (AnymailWebhookValidationFailure
                                      (''SNS header "x-amz-sns-message-id: '' @ header_id
                                         @ ''" doesn't match body "MessageId": "''
                                         @ str rt body_id @ ''"'')), w')
                            else (Inr (), w'))))\<close>

text \<open>\<^verbatim>\<open>'%s'\<close> in a message: the text between two apostrophes.\<close>

definition quoted :: "string \<Rightarrow> string" where
  "quoted s = [CHR 0x27] @ s @ [CHR 0x27]"

text \<open>\<^verbatim>\<open>auto_confirm_sns_subscription\<close> (lines 95 to 124). The URL is logged in
  \<open>http_gets\<close> when \<^verbatim>\<open>requests.get\<close> is called, whatever the call answers.\<close>

definition auto_confirm_sns_subscription ::
  "runtime \<Rightarrow> view \<Rightarrow> json \<Rightarrow> world \<Rightarrow> (py_error + unit) \<times> world" where
  "auto_confirm_sns_subscription rt self sns_message w =
     (if \<not> auto_confirm_enabled self then (Inr (), w)
      else if basic_auth self = [] then
        (bnd (dict_get sns_message ''TopicArn'' JNull) (\<lambda>topic_arn.
         bnd (dict_get sns_message ''Token'' JNull) (\<lambda>token.
           Inl (AnymailWebhookValidationFailure
             (''Anymail received an unexpected SubscriptionConfirmation request for Amazon SNS topic ''
              @ quoted (str rt topic_arn)
              @ ''. (Anymail can automatically confirm SNS subscriptions if you set a ''
              @ ''WEBHOOK_SECRET and use that in your SNS notification url. Or you can manually confirm ''
              @ ''this subscription in the SNS dashboard with token ''
              @ quoted (str rt token) @ ''.)'')))), w)
      else
        (case subscript sns_message ''SubscribeURL'' of
           Inl err \<Rightarrow> (Inl err, w)
         | Inr url \<Rightarrow>
             (case requests_get rt url of
                Inl err \<Rightarrow> (Inl err, w\<lparr>http_gets := http_gets w @ [url]\<rparr>)
              | Inr response \<Rightarrow>
                  (if \<not> ok response then
                     bnd (dict_get sns_message ''TopicArn'' JNull) (\<lambda>topic_arn.
                       Inl (AnymailWebhookValidationFailure
                         (''Anymail received a '' @ str rt (JInt (status_code response))
                          @ '' error trying to automatically confirm a subscription ''
                          @ ''to Amazon SNS topic '' @ quoted (str rt topic_arn)
                          @ ''. The response was '' @ quoted (text response) @ ''.'')))
                   else Inr (),
                   w\<lparr>http_gets := http_gets w @ [url]\<rparr>))))"

text \<open>\<^verbatim>\<open>parse_events\<close> (lines 71 to 90). \<^verbatim>\<open>self.esp_to_anymail_events\<close> is the method of the
  view's class, passed as \<open>esp_to_anymail_events\<close>.\<close>

definition parse_events ::
  "(runtime \<Rightarrow> json \<Rightarrow> json \<Rightarrow> py_error + AnymailTrackingEvent list) \<Rightarrow>
   runtime \<Rightarrow> view \<Rightarrow> world \<Rightarrow> (py_error + AnymailTrackingEvent list) \<times> world" where
  "parse_events esp_to_anymail_events rt self w =
     (case parse_sns_message rt w of
        (Inl err, w') \<Rightarrow> (Inl err, w')
      | (Inr sns_message, w') \<Rightarrow>
          (case dict_get sns_message ''Type'' JNull of
             Inl err \<Rightarrow> (Inl err, w')
           | Inr sns_type \<Rightarrow>
               if sns_type = JString ''Notification'' then
                 (case dict_get sns_message ''Message'' JNull of
                    Inl err \<Rightarrow> (Inl err, w')
                  | Inr message_string \<Rightarrow>
                      (case json_loads_value rt message_string of
                         Inl err \<Rightarrow>
                           if err = TypeError \<or> isinstance_ValueError err then
                             (if message_string = JString
                                   ''Successfully validated SNS topic for Amazon SES event publishing.''
                              then (Inr [], w')
                              else (Inl (AnymailWebhookValidationFailure
                                           (''Unparsable SNS Message '' @ repr rt message_string)), w'))
                           else (Inl err, w')
                       | Inr ses_event \<Rightarrow> (esp_to_anymail_events rt ses_event sns_message, w')))
               else if sns_type = JString ''SubscriptionConfirmation'' then
                 (case auto_confirm_sns_subscription rt self sns_message w' of
                    (Inl err, w'') \<Rightarrow> (Inl err, w'')
                  | (Inr _, w'') \<Rightarrow> (Inr [], w''))
               else (Inr [], w')))"

text \<open>\<^verbatim>\<open>esp_to_anymail_events\<close> of the base class (lines 92 and 93).\<close>

definition esp_to_anymail_events_base ::
  "runtime \<Rightarrow> json \<Rightarrow> json \<Rightarrow> py_error + AnymailTrackingEvent list" where
  "esp_to_anymail_events_base rt ses_event sns_message = Inl NotImplementedError"

section \<open>AmazonSESTrackingWebhookView\<close>

text \<open>
  Modelled from the spec: the function \<^verbatim>\<open>getfirst\<close> of \<^verbatim>\<open>anymail/utils.py\<close>, which is not
  among the sources. It is the spec's first-match lookup across the field names, with
  the default when none is present.
\<close>

fun getfirst :: "json \<Rightarrow> string list \<Rightarrow> json \<Rightarrow> py_error + json" where
  "getfirst dct [] dflt = Inr dflt"
| "getfirst dct (key # keys) dflt =
     (case subscript dct key of
        Inr v \<Rightarrow> Inr v
      | Inl err \<Rightarrow> if err = KeyError then getfirst dct keys dflt else Inl err)"

text \<open>One round of the loop over the mail object's headers (lines 150 to 158), on the
  pair of \<open>tags\<close> and \<open>metadata\<close>, and the loop.\<close>

definition scan_header :: "runtime \<Rightarrow> json list \<times> json \<Rightarrow> json \<Rightarrow> py_error + json list \<times> json" where
  "scan_header rt acc header =
     (case acc of (tags_so_far, metadata_so_far) \<Rightarrow>
        bnd (subscript header ''name'') (\<lambda>nm.
        bnd (lower nm) (\<lambda>name.
          if name = ''x-tag'' then
            bnd (subscript header ''value'') (\<lambda>v. Inr (tags_so_far @ [v], metadata_so_far))
          else if name = ''x-metadata'' then
            (case bnd (subscript header ''value'') (json_loads_value rt) of
               Inr v \<Rightarrow> Inr (tags_so_far, v)
             | Inl err \<Rightarrow>
                 if isinstance_ValueError err \<or> err = TypeError \<or> err = KeyError
                 then Inr (tags_so_far, metadata_so_far) else Inl err)
          else Inr (tags_so_far, metadata_so_far))))"

fun scan_headers :: "runtime \<Rightarrow> json list \<times> json \<Rightarrow> json list \<Rightarrow> py_error + json list \<times> json" where
  "scan_headers rt acc [] = Inr acc"
| "scan_headers rt acc (header # headers) =
     bnd (scan_header rt acc header) (\<lambda>acc'. scan_headers rt acc' headers)"

text \<open>The properties of one recipient (\<^verbatim>\<open>per_recipient_props\<close>): \<open>rp_mta_response\<close> is
  \<open>None\<close> when the dict has no such key.\<close>

record recipient_props =
  rp_recipient :: json
  rp_mta_response :: "json option"

text \<open>
  Modelled from the spec: the function \<^verbatim>\<open>combine\<close> of \<^verbatim>\<open>anymail/utils.py\<close>, which is not
  among the sources, in \<^verbatim>\<open>AnymailTrackingEvent(**combine(common_props, recipient_props))\<close>
  (line 244). It merges the common fields with the entry's fields.
\<close>

definition combine :: "AnymailTrackingEvent \<Rightarrow> recipient_props \<Rightarrow> AnymailTrackingEvent" where
  "combine common_props props =
     common_props\<lparr>recipient := rp_recipient props,
                  mta_response := (case rp_mta_response props of
                                     Some v \<Rightarrow> v | None \<Rightarrow> mta_response common_props)\<rparr>"

text \<open>Lines 138 to 141: a \<^verbatim>\<open>KeyError\<close> or \<^verbatim>\<open>ValueError\<close> leaves the timestamp \<^verbatim>\<open>None\<close>.\<close>

definition parse_timestamp :: "runtime \<Rightarrow> json \<Rightarrow> py_error + datetime option" where
  "parse_timestamp rt sns_message =
     (case bnd (subscript sns_message ''Timestamp'') (parse_datetime rt) of
        Inr t \<Rightarrow> Inr t
      | Inl err \<Rightarrow> if err = KeyError \<or> isinstance_ValueError err then Inr None else Inl err)"

text \<open>Lines 148 to 158: \<open>tags\<close> and \<open>metadata\<close> recovered from the custom headers.\<close>

definition recover_tags_and_metadata :: "runtime \<Rightarrow> json \<Rightarrow> py_error + json list \<times> json" where
  "recover_tags_and_metadata rt mail_object =
     bnd (dict_get mail_object ''headers'' (JArray [])) (\<lambda>hs.
     bnd (iterate hs) (\<lambda>header_list.
       scan_headers rt ([], JObject []) header_list))"

text \<open>
  Lines 137 to 174: the properties common to all recipients, the default
  \<^verbatim>\<open>per_recipient_props\<close>, \<^verbatim>\<open>ses_event_type\<close> and \<^verbatim>\<open>event_object\<close>. The key
  \<^verbatim>\<open>event_type\<close> is not in the dict yet: every branch of lines 176 to 240 sets it.
\<close>

definition common_props ::
  "runtime \<Rightarrow> json \<Rightarrow> json \<Rightarrow>
   py_error + AnymailTrackingEvent \<times> recipient_props list \<times> json \<times> json" where
  "common_props rt ses_event sns_message =
     bnd (dict_get sns_message ''MessageId'' JNull) (\<lambda>event_id.
     bnd (parse_timestamp rt sns_message) (\<lambda>timestamp.
     bnd (dict_get ses_event ''mail'' (JObject [])) (\<lambda>mail_object.
     bnd (dict_get mail_object ''messageId'' JNull) (\<lambda>message_id.
     bnd (dict_get mail_object ''destination'' (JArray [])) (\<lambda>all_recipients.
     bnd (recover_tags_and_metadata rt mail_object) (\<lambda>(tags, metadata).
     bnd (iterate all_recipients) (\<lambda>addresses.
     bnd (getfirst ses_event [''eventType'', ''notificationType''] (JString ''<<type missing>>''))
       (\<lambda>ses_event_type.
     bnd (lower ses_event_type) (\<lambda>key.
     bnd (dict_get ses_event key (JObject [])) (\<lambda>event_object.
       Inr (\<lparr>event_type = EventType_UNKNOWN, timestamp = timestamp, event_id = event_id,
              esp_event = ses_event, click_url = JNull, description = JNull,
              message_id = message_id, metadata = metadata, mta_response = JNull,
              recipient = JNull, reject_reason = None, tags = tags, user_agent = JNull\<rparr>,
            map (\<lambda>email_address. \<lparr>rp_recipient = email_address, rp_mta_response = None\<rparr>)
              addresses,
            ses_event_type, event_object)))))))))))"

text \<open>\<^verbatim>\<open>"{bounceType}: {bounceSubType}".format(**event_object)\<close>: the argument of \<^verbatim>\<open>**\<close>
  must be a dict, and both keys must be in it.\<close>

definition format_bounce :: "runtime \<Rightarrow> json \<Rightarrow> py_error + json" where
  "format_bounce rt event_object =
     (case event_object of
        JObject kvs \<Rightarrow>
          bnd (subscript event_object ''bounceType'') (\<lambda>bounceType.
          bnd (subscript event_object ''bounceSubType'') (\<lambda>bounceSubType.
            Inr (JString (str rt bounceType @ '': '' @ str rt bounceSubType))))
      | _ \<Rightarrow> Inl TypeError)"

text \<open>Lines 176 to 240: the branch on \<^verbatim>\<open>ses_event_type\<close>, which updates the common
  properties and may replace \<^verbatim>\<open>per_recipient_props\<close>.\<close>

definition update_for_event_type ::
  "runtime \<Rightarrow> json \<Rightarrow> json \<Rightarrow> json \<Rightarrow> AnymailTrackingEvent \<Rightarrow> recipient_props list \<Rightarrow>
   py_error + AnymailTrackingEvent \<times> recipient_props list" where
  "update_for_event_type rt ses_event ses_event_type event_object common per_recipient_props =
     (if ses_event_type = JString ''Bounce'' then
        bnd (format_bounce rt event_object) (\<lambda>d.
        bnd (subscript event_object ''bouncedRecipients'') (\<lambda>rs.
        bnd (iterate rs) (\<lambda>recipients.
        bnd (map_exn (\<lambda>recipient.
               bnd (subscript recipient ''emailAddress'') (\<lambda>a.
               bnd (dict_get recipient ''diagnosticCode'' JNull) (\<lambda>c.
                 Inr \<lparr>rp_recipient = a, rp_mta_response = Some c\<rparr>))) recipients) (\<lambda>props.
          Inr (common\<lparr>event_type := EventType_BOUNCED, description := d,
                      reject_reason := Some RejectReason_BOUNCED\<rparr>, props)))))
      else if ses_event_type = JString ''Complaint'' then
        bnd (dict_get event_object ''complaintFeedbackType'' JNull) (\<lambda>d.
        bnd (dict_get event_object ''userAgent'' JNull) (\<lambda>ua.
        bnd (subscript event_object ''complainedRecipients'') (\<lambda>rs.
        bnd (iterate rs) (\<lambda>recipients.
        bnd (map_exn (\<lambda>recipient.
               bnd (subscript recipient ''emailAddress'') (\<lambda>a.
                 Inr \<lparr>rp_recipient = a, rp_mta_response = None\<rparr>)) recipients) (\<lambda>props.
          Inr (common\<lparr>event_type := EventType_COMPLAINED, description := d,
                      reject_reason := Some RejectReason_SPAM, user_agent := ua\<rparr>, props))))))
      else if ses_event_type = JString ''Delivery'' then
        bnd (dict_get event_object ''smtpResponse'' JNull) (\<lambda>r.
        bnd (subscript event_object ''recipients'') (\<lambda>rs.
        bnd (iterate rs) (\<lambda>recipients.
          Inr (common\<lparr>event_type := EventType_DELIVERED, mta_response := r\<rparr>,
               map (\<lambda>recipient. \<lparr>rp_recipient = recipient, rp_mta_response = None\<rparr>)
                 recipients))))
      else if ses_event_type = JString ''Send'' then
        Inr (common\<lparr>event_type := EventType_SENT\<rparr>, per_recipient_props)
      else if ses_event_type = JString ''Reject'' then
        bnd (subscript event_object ''reason'') (\<lambda>d.
          Inr (common\<lparr>event_type := EventType_REJECTED, description := d,
                      reject_reason := Some RejectReason_BLOCKED\<rparr>, per_recipient_props))
      else if ses_event_type = JString ''Open'' then
        bnd (dict_get event_object ''userAgent'' JNull) (\<lambda>ua.
          Inr (common\<lparr>event_type := EventType_OPENED, user_agent := ua\<rparr>, per_recipient_props))
      else if ses_event_type = JString ''Click'' then
        bnd (dict_get event_object ''userAgent'' JNull) (\<lambda>ua.
        bnd (dict_get event_object ''link'' JNull) (\<lambda>link.
          Inr (common\<lparr>event_type := EventType_CLICKED, user_agent := ua, click_url := link\<rparr>,
               per_recipient_props)))
      else if ses_event_type = JString ''Rendering Failure'' then
        bnd (subscript ses_event ''failure'') (\<lambda>failure.
        bnd (subscript failure ''errorMessage'') (\<lambda>d.
          Inr (common\<lparr>event_type := EventType_FAILED, description := d\<rparr>, per_recipient_props)))
      else
        Inr (common\<lparr>event_type := EventType_UNKNOWN,
                    description := JString (''Unknown SES eventType '' @ quoted (str rt ses_event_type))\<rparr>,
             per_recipient_props))"

text \<open>\<^verbatim>\<open>esp_to_anymail_events\<close> (lines 132 to 246).\<close>

definition esp_to_anymail_events ::
  "runtime \<Rightarrow> json \<Rightarrow> json \<Rightarrow> py_error + AnymailTrackingEvent list" where
  "esp_to_anymail_events rt ses_event sns_message =
     bnd (common_props rt ses_event sns_message)
       (\<lambda>(common, per_recipient_props, ses_event_type, event_object).
     bnd (update_for_event_type rt ses_event ses_event_type event_object common per_recipient_props)
       (\<lambda>(common', per_recipient_props').
       Inr (map (combine common') per_recipient_props')))"

section \<open>The request pipeline\<close>

record HttpResponse =
  status :: nat
  headers :: "(string \<times> string) list"

text \<open>
  Modelled from the spec: the method \<^verbatim>\<open>post\<close> of \<^verbatim>\<open>AnymailBaseWebhookView\<close>, a class of
  \<^verbatim>\<open>anymail/webhooks/base.py\<close>, which is not among the sources. The spec's control flow
  is: decode and validate the envelope (fail fast), then branch on the envelope's type
  to the handshake or the normalizer, then hand the events to the dispatch sink; a
  decode or validation error aborts the request with no event sent. The check of the
  shared secret is the surrounding framework's.
\<close>

definition base_post ::
  "(runtime \<Rightarrow> json \<Rightarrow> json \<Rightarrow> py_error + AnymailTrackingEvent list) \<Rightarrow>
   runtime \<Rightarrow> view \<Rightarrow> world \<Rightarrow> (py_error + HttpResponse) \<times> world" where
  "base_post e2a rt self w =
     (case validate_request rt w of
        (Inl err, w1) \<Rightarrow> (Inl err, w1)
      | (Inr _, w1) \<Rightarrow>
          (case parse_events e2a rt self w1 of
             (Inl err, w2) \<Rightarrow> (Inl err, w2)
           | (Inr events, w2) \<Rightarrow>
               (Inr \<lparr>status = 200, headers = []\<rparr>,
                w2\<lparr>signals_sent := signals_sent w2 @ events\<rparr>)))"

text \<open>\<^verbatim>\<open>post\<close> (lines 62 to 69).\<close>

definition post ::
  "(runtime \<Rightarrow> json \<Rightarrow> json \<Rightarrow> py_error + AnymailTrackingEvent list) \<Rightarrow>
   runtime \<Rightarrow> view \<Rightarrow> world \<Rightarrow> (py_error + HttpResponse) \<times> world" where
  \<open>post e2a rt self w =
     (if basic_auth self \<noteq> []
         \<and> (case map_of (META (req w)) ''HTTP_AUTHORIZATION'' of
               None \<Rightarrow> True | Some a \<Rightarrow> a = [])
      then (Inr \<lparr>status = 401,
                 headers = [(''WWW-Authenticate'', ''Basic realm="Anymail WEBHOOK_SECRET"'')]\<rparr>, w)
      else base_post e2a rt self w)\<close>

section \<open>An example runtime\<close>

text \<open>
  A runtime to run the model on concrete requests. It answers as CPython, Django and
  the network would on the inputs it knows, and with the exception \<open>unsupported\<close>, which
  no handler of the module catches, on every other input: a body that is not ASCII, a
  codec other than UTF-8, a JSON text with a float or a \<^verbatim>\<open>\u\<close> escape or with lists and
  dicts nested 100 to 999 deep, a date in another format or on the 29th to 31st day, a
  URL outside the two of \<open>example_requests_get\<close>.
\<close>

definition unsupported :: py_error where
  "unsupported = OtherError ''outside the example runtime''"

subsection \<open>\<^verbatim>\<open>json.loads\<close>\<close>

definition is_ws :: "char \<Rightarrow> bool" where
  "is_ws c = (c = CHR 0x20 \<or> c = CHR 0x09 \<or> c = CHR 0x0A \<or> c = CHR 0x0D)"

definition skip_ws :: "string \<Rightarrow> string" where
  "skip_ws s = dropWhile is_ws s"

definition is_digit :: "char \<Rightarrow> bool" where
  "is_digit c = (48 \<le> (of_char c :: nat) \<and> (of_char c :: nat) \<le> 57)"

definition digits_value :: "string \<Rightarrow> nat" where
  "digits_value ds = foldl (\<lambda>n c. 10 * n + ((of_char c :: nat) - 48)) 0 ds"

definition unescape :: "char \<Rightarrow> char option" where
  "unescape e =
     (if e = CHR 0x22 \<or> e = CHR 0x5C \<or> e = CHR ''/'' then Some e
      else if e = CHR ''b'' then Some (CHR 0x08)
      else if e = CHR ''f'' then Some (CHR 0x0C)
      else if e = CHR ''n'' then Some (CHR 0x0A)
      else if e = CHR ''r'' then Some (CHR 0x0D)
      else if e = CHR ''t'' then Some (CHR 0x09)
      else None)"

text \<open>The characters of a string literal after its opening quote, up to the closing
  one; a control character is an error.\<close>

fun read_string :: "string \<Rightarrow> string \<Rightarrow> py_error + string \<times> string" where
  "read_string acc [] = Inl JSONDecodeError"
| "read_string acc [c] = (if c = CHR 0x22 then Inr (rev acc, []) else Inl JSONDecodeError)"
| "read_string acc (c # e # cs) =
     (if c = CHR 0x22 then Inr (rev acc, e # cs)
      else if c = CHR 0x5C then
        (if e = CHR ''u'' then Inl unsupported
         else case unescape e of
                None \<Rightarrow> Inl JSONDecodeError
              | Some ch \<Rightarrow> read_string (ch # acc) cs)
      else if (of_char c :: nat) < 32 then Inl JSONDecodeError
      else read_string (c # acc) (e # cs))"

text \<open>An integer: an optional sign, then \<^verbatim>\<open>0\<close> or digits that do not start with \<^verbatim>\<open>0\<close>.\<close>

definition read_number :: "string \<Rightarrow> py_error + json \<times> string" where
  "read_number s =
     (let negative = (take 1 s = ''-'');
          s1 = (if negative then drop 1 s else s);
          ds = takeWhile is_digit s1;
          rest = dropWhile is_digit s1
      in if ds = [] then
           (if take 1 s1 \<in> {''N'', ''I''} then Inl unsupported else Inl JSONDecodeError)
         else if take 1 ds = ''0'' then
           (if take 1 (drop 1 s1) \<in> {''.'', ''e'', ''E''} then Inl unsupported
            else Inr (JInt 0, drop 1 s1))
         else if take 1 rest \<in> {''.'', ''e'', ''E''} then Inl unsupported
         else Inr (JInt (if negative then - int (digits_value ds) else int (digits_value ds)), rest))"

text \<open>\<^verbatim>\<open>d[k] = v\<close>: a key that is there keeps its place.\<close>

fun dict_set :: "(string \<times> json) list \<Rightarrow> string \<Rightarrow> json \<Rightarrow> (string \<times> json) list" where
  "dict_set [] k v = [(k, v)]"
| "dict_set (p # ps) k v = (if fst p = k then (k, v) # ps else p # dict_set ps k v)"

text \<open>
  CPython (up to 3.11, with the recursion limit of 1000 that it starts with) counts one
  level of recursion for every list and dict it enters, on top of the calls that are
  already on the stack: a list or dict inside 999 others always raises
  \<^verbatim>\<open>RecursionError\<close>. Whether one inside fewer raises depends on the calls on the stack:
  the reader takes the stack to have room for 99 levels, and inside 99 to 998 lists and
  dicts it answers \<open>unsupported\<close> unless the text goes on to the depth that always
  raises.
\<close>

definition nested :: "nat \<Rightarrow> py_error + json \<times> string \<Rightarrow> py_error + json \<times> string" where
  "nested level r =
     (if level < 99 then r
      else case r of Inl err \<Rightarrow> if err = RecursionError then r else Inl unsupported
                   | Inr v \<Rightarrow> Inl unsupported)"

text \<open>A value, the items of a list after the first bracket and the members of a dict
  after the first brace. The first argument bounds the number of nested calls: where it
  runs out the answer is \<open>unsupported\<close>. \<open>example_json_loads\<close> starts with twice the
  length of the text, plus two. The second argument is the number of lists and dicts
  around the value.\<close>

fun read_value :: "nat \<Rightarrow> nat \<Rightarrow> string \<Rightarrow> py_error + json \<times> string"
  and read_items :: "nat \<Rightarrow> nat \<Rightarrow> json list \<Rightarrow> string \<Rightarrow> py_error + json \<times> string"
  and read_members ::
    "nat \<Rightarrow> nat \<Rightarrow> (string \<times> json) list \<Rightarrow> string \<Rightarrow> py_error + json \<times> string"
where
  "read_value 0 level s = Inl unsupported"
| "read_value (Suc n) level s =
     (if s = [] then Inl JSONDecodeError
      else if take 1 s = [CHR 0x22] then
        bnd (read_string [] (drop 1 s)) (\<lambda>(k, rest). Inr (JString k, rest))
      else if take 1 s = ''['' then
        (if 999 \<le> level then Inl RecursionError
         else nested level
           (if take 1 (skip_ws (drop 1 s)) = '']''
            then Inr (JArray [], drop 1 (skip_ws (drop 1 s)))
            else read_items n (Suc level) [] (skip_ws (drop 1 s))))
      else if take 1 s = ''{'' then
        (if 999 \<le> level then Inl RecursionError
         else nested level
           (if take 1 (skip_ws (drop 1 s)) = ''}''
            then Inr (JObject [], drop 1 (skip_ws (drop 1 s)))
            else read_members n (Suc level) [] (skip_ws (drop 1 s))))
      else if take 4 s = ''null'' then Inr (JNull, drop 4 s)
      else if take 4 s = ''true'' then Inr (JBool True, drop 4 s)
      else if take 5 s = ''false'' then Inr (JBool False, drop 5 s)
      else read_number s)"
| "read_items 0 level acc s = Inl unsupported"
| "read_items (Suc n) level acc s =
     bnd (read_value n level s) (\<lambda>(v, rest).
       if take 1 (skip_ws rest) = '','' then
         read_items n level (acc @ [v]) (skip_ws (drop 1 (skip_ws rest)))
       else if take 1 (skip_ws rest) = '']'' then Inr (JArray (acc @ [v]), drop 1 (skip_ws rest))
       else Inl JSONDecodeError)"
| "read_members 0 level acc s = Inl unsupported"
| "read_members (Suc n) level acc s =
     (if take 1 s \<noteq> [CHR 0x22] then Inl JSONDecodeError
      else bnd (read_string [] (drop 1 s)) (\<lambda>(k, rest).
        if take 1 (skip_ws rest) \<noteq> '':'' then Inl JSONDecodeError
        else bnd (read_value n level (skip_ws (drop 1 (skip_ws rest)))) (\<lambda>(v, rest').
          if take 1 (skip_ws rest') = '','' then
            read_members n level (dict_set acc k v) (skip_ws (drop 1 (skip_ws rest')))
          else if take 1 (skip_ws rest') = ''}'' then
            Inr (JObject (dict_set acc k v), drop 1 (skip_ws rest'))
          else Inl JSONDecodeError)))"

definition example_json_loads :: "string \<Rightarrow> py_error + json" where
  "example_json_loads s =
     bnd (read_value (2 * length s + 2) 0 (skip_ws s)) (\<lambda>(v, rest).
       if skip_ws rest = [] then Inr v else Inl JSONDecodeError)"

subsection \<open>\<^verbatim>\<open>bytes.decode\<close>\<close>

text \<open>ASCII bytes are their own text in UTF-8; the bytes C0, C1 and F5 to FF are in no
  UTF-8 text.\<close>

definition example_bytes_decode :: "string \<Rightarrow> string \<Rightarrow> py_error + string" where
  "example_bytes_decode bs codec =
     (if codec \<noteq> ''utf-8'' then Inl unsupported
      else if \<forall>c \<in> set bs. (of_char c :: nat) < 128 then Inr bs
      else if \<exists>c \<in> set bs. (of_char c :: nat) \<in> {192, 193} \<or> 245 \<le> (of_char c :: nat)
        then Inl UnicodeDecodeError
      else Inl unsupported)"

subsection \<open>\<^verbatim>\<open>repr\<close>\<close>

definition digit_char :: "nat \<Rightarrow> char" where
  "digit_char n = (if n < 10 then char_of (48 + n) else char_of (87 + n))"

function show_nat :: "nat \<Rightarrow> string" where
  "show_nat n = (if n < 10 then [digit_char n] else show_nat (n div 10) @ [digit_char (n mod 10)])"
  by pat_completeness auto
termination
  by (relation "measure id") auto

definition show_int :: "int \<Rightarrow> string" where
  "show_int i = (if i < 0 then CHR ''-'' # show_nat (nat (- i)) else show_nat (nat i))"

text \<open>One character between the quotes \<open>q\<close>. The characters from 7F up to \<open>limit\<close> are
  written in hexadecimal: in a \<^verbatim>\<open>bytes\<close> all of them, in a \<^verbatim>\<open>str\<close> those below A1.\<close>

definition repr_char :: "nat \<Rightarrow> char \<Rightarrow> char \<Rightarrow> string" where
  "repr_char limit q c =
     (if c = CHR 0x5C then [CHR 0x5C, CHR 0x5C]
      else if c = q then [CHR 0x5C, q]
      else if c = CHR 0x0A then [CHR 0x5C, CHR ''n'']
      else if c = CHR 0x0D then [CHR 0x5C, CHR ''r'']
      else if c = CHR 0x09 then [CHR 0x5C, CHR ''t'']
      else if (of_char c :: nat) < 32 \<or> (127 \<le> (of_char c :: nat) \<and> (of_char c :: nat) < limit)
              \<or> (of_char c :: nat) = 173
        then [CHR 0x5C, CHR ''x'', digit_char ((of_char c :: nat) div 16),
              digit_char ((of_char c :: nat) mod 16)]
      else [c])"

definition repr_text :: "nat \<Rightarrow> string \<Rightarrow> string" where
  "repr_text limit s =
     (let q = (if CHR 0x27 \<in> set s \<and> CHR 0x22 \<notin> set s then CHR 0x22 else CHR 0x27)
      in [q] @ concat (map (repr_char limit q) s) @ [q])"

fun example_repr :: "json \<Rightarrow> string"
  and repr_items :: "json list \<Rightarrow> string"
  and repr_members :: "(string \<times> json) list \<Rightarrow> string"
where
  "example_repr JNull = ''None''"
| "example_repr (JBool b) = (if b then ''True'' else ''False'')"
| "example_repr (JInt i) = show_int i"
| "example_repr (JFloat f) = f"
| "example_repr (JString s) = repr_text 161 s"
| "example_repr (JArray xs) = ''['' @ repr_items xs @ '']''"
| "example_repr (JObject kvs) = ''{'' @ repr_members kvs @ ''}''"
| "repr_items [] = []"
| "repr_items [x] = example_repr x"
| "repr_items (x # y # ys) = example_repr x @ '', '' @ repr_items (y # ys)"
| "repr_members [] = []"
| "repr_members [(k, v)] = repr_text 161 k @ '': '' @ example_repr v"
| "repr_members ((k, v) # p # ps) =
     repr_text 161 k @ '': '' @ example_repr v @ '', '' @ repr_members (p # ps)"

definition example_repr_bytes :: "string \<Rightarrow> string" where
  "example_repr_bytes bs = CHR ''b'' # repr_text 256 bs"

subsection \<open>\<^verbatim>\<open>requests.get\<close> and \<^verbatim>\<open>parse_datetime\<close>\<close>

text \<open>The network: one confirmation URL answers 200, one answers 403.\<close>

definition example_requests_get :: "json \<Rightarrow> py_error + response" where
  "example_requests_get url =
     (if url = JString ''https://sns.us-east-1.amazonaws.com/?Action=ConfirmSubscription&Token=2336412f37fb''
        then Inr \<lparr>ok = True, status_code = 200, text = ''<ConfirmSubscriptionResponse/>''\<rparr>
      else if url = JString ''https://sns.us-east-1.amazonaws.com/?Action=ConfirmSubscription&Token=expired''
        then Inr \<lparr>ok = False, status_code = 403, text = ''Forbidden''\<rparr>
      else Inl unsupported)"

text \<open>Dates written \<^verbatim>\<open>YYYY-MM-DDTHH:MM:SSZ\<close>. A field out of range is a \<^verbatim>\<open>ValueError\<close>.\<close>

definition example_parse_datetime :: "json \<Rightarrow> py_error + datetime option" where
  "example_parse_datetime v =
     (case v of
        JString s \<Rightarrow>
          if map is_digit s = [True, True, True, True, False, True, True, False, True, True, False,
                               True, True, False, True, True, False, True, True, False]
             \<and> filter (\<lambda>c. \<not> is_digit c) s = ''--T::Z''
          then
            (let year = digits_value (take 4 s);
                 month = digits_value (take 2 (drop 5 s));
                 day = digits_value (take 2 (drop 8 s));
                 hour = digits_value (take 2 (drop 11 s));
                 minute = digits_value (take 2 (drop 14 s));
                 second = digits_value (take 2 (drop 17 s))
             in if year < 1 \<or> month < 1 \<or> 12 < month \<or> day < 1 \<or> 31 < day
                   \<or> 23 < hour \<or> 59 < minute \<or> 59 < second
                then Inl ValueError
                else if 28 < day then Inl unsupported
                else Inr (Some (Datetime s)))
          else Inl unsupported
      | _ \<Rightarrow> Inl TypeError)"

definition example_runtime :: runtime where
  "example_runtime =
     \<lparr>json_loads = example_json_loads,
      bytes_decode = example_bytes_decode,
      requests_get = example_requests_get,
      parse_datetime = example_parse_datetime,
      repr = example_repr,
      repr_bytes = example_repr_bytes\<rparr>"

section \<open>Vocabulary of the properties\<close>

text \<open>A result that is an \<^verbatim>\<open>AnymailWebhookValidationFailure\<close>.\<close>

fun raises_validation_failure :: "py_error + 'a \<Rightarrow> bool" where
  "raises_validation_failure (Inl err) = is_validation_failure err"
| "raises_validation_failure (Inr _) = False"

text \<open>The state after \<^verbatim>\<open>_parse_sns_message\<close> has decoded the body to \<open>m\<close> for the first
  time: \<open>m\<close> is cached on the request and one call of \<^verbatim>\<open>json.loads\<close> is counted.\<close>

definition decoded :: "world \<Rightarrow> json \<Rightarrow> world" where
  "decoded w m = w\<lparr>req := (req w)\<lparr>sns_message_attr := Some m\<rparr>, body_loads := Suc (body_loads w)\<rparr>"

text \<open>The full recipient list of an event (lines 143 to 145): the items of the member
  \<^verbatim>\<open>destination\<close> of its mail object, none when a member is absent.\<close>

definition all_recipients :: "json \<Rightarrow> py_error + json list" where
  "all_recipients ses_event =
     bnd (dict_get ses_event ''mail'' (JObject [])) (\<lambda>mail_object.
     bnd (dict_get mail_object ''destination'' (JArray [])) iterate)"

text \<open>The custom headers of an event (line 150): the items of the member \<^verbatim>\<open>headers\<close> of its
  mail object, none when a member is absent; and the name of a header as line 151
  reads it.\<close>

definition mail_headers :: "json \<Rightarrow> py_error + json list" where
  "mail_headers ses_event =
     bnd (dict_get ses_event ''mail'' (JObject [])) (\<lambda>mail_object.
     bnd (dict_get mail_object ''headers'' (JArray [])) iterate)"

definition header_name :: "json \<Rightarrow> py_error + string" where
  "header_name header = bnd (subscript header ''name'') lower"

text \<open>An x-metadata header whose failure line 157 swallows: \<^verbatim>\<open>json.loads\<close> raises a
  \<^verbatim>\<open>ValueError\<close> on its value (the value is not JSON) or a \<^verbatim>\<open>TypeError\<close> (the value is not a
  string), or the header has no value and the subscript raises \<^verbatim>\<open>KeyError\<close>. A header on
  whose value \<^verbatim>\<open>json.loads\<close> raises an exception of another kind is not one of them.\<close>

definition invalid_metadata_header :: "runtime \<Rightarrow> json \<Rightarrow> bool" where
  "invalid_metadata_header rt header =
     (header_name header = Inr ''x-metadata''
      \<and> (case bnd (subscript header ''value'') (json_loads_value rt) of
            Inl err \<Rightarrow> isinstance_ValueError err \<or> err = TypeError \<or> err = KeyError
          | Inr v \<Rightarrow> False))"

text \<open>What a header decodes the metadata to: the decoded value of an x-metadata header,
  nothing for any other header and for an x-metadata header that does not decode.\<close>

definition metadata_of_header :: "runtime \<Rightarrow> json \<Rightarrow> json option" where
  "metadata_of_header rt header =
     (if header_name header = Inr ''x-metadata'' then
        (case bnd (subscript header ''value'') (json_loads_value rt) of
           Inl err \<Rightarrow> None
         | Inr v \<Rightarrow> Some v)
      else None)"

text \<open>The metadata after a list of headers: that of the last header that decodes one,
  the value before the list when there is none.\<close>

definition last_metadata :: "runtime \<Rightarrow> json \<Rightarrow> json list \<Rightarrow> json" where
  "last_metadata rt before header_list =
     foldl (\<lambda>m header. case metadata_of_header rt header of Some v \<Rightarrow> v | None \<Rightarrow> m)
       before header_list"

text \<open>The test of line 64: a shared secret is configured and the request has no
  \<^verbatim>\<open>Authorization\<close> header, or an empty one. \<^verbatim>\<open>post\<close> then answers the challenge of lines
  66 to 68 and does nothing else.\<close>

definition challenged :: "view \<Rightarrow> world \<Rightarrow> bool" where
  "challenged self w =
     (basic_auth self \<noteq> []
      \<and> (case map_of (META (req w)) ''HTTP_AUTHORIZATION'' of None \<Rightarrow> True | Some a \<Rightarrow> a = []))"

definition challenge :: HttpResponse where
  \<open>challenge =
     \<lparr>status = 401, headers = [(''WWW-Authenticate'', ''Basic realm="Anymail WEBHOOK_SECRET"'')]\<rparr>\<close>

section \<open>Example requests\<close>

text \<open>The state when a request arrives: nothing cached, nothing done yet.\<close>

definition arriving :: "string \<Rightarrow> (string \<times> string) list \<Rightarrow> world" where
  "arriving b m =
     \<lparr>req = \<lparr>body = b, encoding = None, META = m, sns_message_attr = None\<rparr>,
      body_loads = 0, http_gets = [], signals_sent = []\<rparr>"

definition sns_headers :: "string \<Rightarrow> string \<Rightarrow> (string \<times> string) list" where
  "sns_headers sns_type sns_id =
     [(''HTTP_X_AMZ_SNS_MESSAGE_TYPE'', sns_type),
      (''HTTP_X_AMZ_SNS_MESSAGE_ID'', sns_id)]"

text \<open>Three views: with a shared secret, without one, and with automatic confirmation
  switched off.\<close>

definition view_with_secret :: view where
  "view_with_secret = \<lparr>auto_confirm_enabled = True, basic_auth = [''sns:s3cret'']\<rparr>"

definition view_without_secret :: view where
  "view_without_secret = \<lparr>auto_confirm_enabled = True, basic_auth = []\<rparr>"

definition view_manual :: view where
  "view_manual = \<lparr>auto_confirm_enabled = False, basic_auth = [''sns:s3cret'']\<rparr>"

text \<open>The members of two SubscriptionConfirmation envelopes: the confirmation URL of
  the first answers 200, that of the second 403.\<close>

definition subscription :: "(string \<times> json) list" where
  "subscription =
     [(''Type'', JString ''SubscriptionConfirmation''),
      (''MessageId'', JString ''165545c9''),
      (''Token'', JString ''2336412f37fb''),
      (''TopicArn'', JString ''arn:aws:sns:us-west-2:123456789012:MyTopic''),
      (''SubscribeURL'',
       JString ''https://sns.us-east-1.amazonaws.com/?Action=ConfirmSubscription&Token=2336412f37fb'')]"

definition expired_subscription :: "(string \<times> json) list" where
  "expired_subscription =
     [(''Type'', JString ''SubscriptionConfirmation''),
      (''MessageId'', JString ''165545ca''),
      (''Token'', JString ''expired''),
      (''TopicArn'', JString ''arn:aws:sns:us-west-2:123456789012:MyTopic''),
      (''SubscribeURL'',
       JString ''https://sns.us-east-1.amazonaws.com/?Action=ConfirmSubscription&Token=expired'')]"
text \<open>The body of the first SubscriptionConfirmation envelope.\<close>

definition subscription_body :: string where
  \<open>subscription_body =
     ''{"Type":"SubscriptionConfirmation","MessageId":"165545c9","Token":"2336412f37fb",''
     @ ''"TopicArn":"arn:aws:sns:us-west-2:123456789012:MyTopic",''
     @ ''"SubscribeURL":"https://sns.us-east-1.amazonaws.com/?Action=ConfirmSubscription&Token=2336412f37fb"}''\<close>

text \<open>The body of an envelope with a type and a message id only, and what it decodes
  to.\<close>

definition envelope_body :: "string \<Rightarrow> string \<Rightarrow> string" where
  \<open>envelope_body sns_type sns_id =
     ''{"Type":"'' @ sns_type @ ''","MessageId":"'' @ sns_id @ ''"}''\<close>

definition envelope :: "string \<Rightarrow> string \<Rightarrow> json" where
  "envelope sns_type sns_id =
     JObject [(''Type'', JString sns_type), (''MessageId'', JString sns_id)]"

text \<open>A \<^verbatim>\<open>str\<close> as a JSON string literal, and the body of a Notification envelope around a
  message.\<close>

fun json_quote_body :: "string \<Rightarrow> string" where
  "json_quote_body [] = []"
| "json_quote_body (c # cs) =
     (if c = CHR 0x22 \<or> c = CHR 0x5C then CHR 0x5C # c # json_quote_body cs
      else c # json_quote_body cs)"

definition json_quote :: "string \<Rightarrow> string" where
  "json_quote s = [CHR 0x22] @ json_quote_body s @ [CHR 0x22]"

definition notification_body :: "string \<Rightarrow> string \<Rightarrow> string" where
  \<open>notification_body sns_id message =
     ''{"Type":"Notification","MessageId":"'' @ sns_id @ ''","Message":'' @ json_quote message @ ''}''\<close>

definition notification :: "string \<Rightarrow> string \<Rightarrow> json" where
  "notification sns_id message =
     JObject [(''Type'', JString ''Notification''), (''MessageId'', JString sns_id),
              (''Message'', JString message)]"

text \<open>A runtime whose \<^verbatim>\<open>json.loads\<close> reads nothing.\<close>

definition deaf_runtime :: runtime where
  "deaf_runtime = example_runtime\<lparr>json_loads := (\<lambda>s. Inl JSONDecodeError)\<rparr>"

text \<open>A bounce of two of three recipients, with a tag and metadata in the custom
  headers: the message of the notification, and the event it decodes to.\<close>

definition bounce_message :: string where
  \<open>bounce_message =
     ''{"notificationType":"Bounce",''
     @ ''"bounce":{"bounceType":"Permanent","bounceSubType":"General","bouncedRecipients":[''
     @ ''{"emailAddress":"jane@example.com","diagnosticCode":"smtp; 550 5.1.1 user unknown"},''
     @ ''{"emailAddress":"richard@example.com"}]},''
     @ ''"mail":{"messageId":"00000137860315fd",''
     @ ''"destination":["jane@example.com","mary@example.com","richard@example.com"],''
     @ ''"headers":[{"name":"X-Tag","value":"welcome"},''
     @ ''{"name":"X-Metadata","value":'' @ json_quote ''{"order":12}'' @ ''}]}}''\<close>

definition bounce_entries :: "(string \<times> json) list list" where
  "bounce_entries =
     [[(''emailAddress'', JString ''jane@example.com''),
       (''diagnosticCode'', JString ''smtp; 550 5.1.1 user unknown'')],
      [(''emailAddress'', JString ''richard@example.com'')]]"

definition bounce_detail :: "(string \<times> json) list" where
  "bounce_detail =
     [(''bounceType'', JString ''Permanent''),
      (''bounceSubType'', JString ''General''),
      (''bouncedRecipients'', JArray (map JObject bounce_entries))]"

definition bounce_event :: json where
  \<open>bounce_event =
     JObject
      [(''notificationType'', JString ''Bounce''),
       (''bounce'', JObject bounce_detail),
       (''mail'',
        JObject
         [(''messageId'', JString ''00000137860315fd''),
          (''destination'',
           JArray [JString ''jane@example.com'', JString ''mary@example.com'',
                   JString ''richard@example.com'']),
          (''headers'',
           JArray
            [JObject [(''name'', JString ''X-Tag''), (''value'', JString ''welcome'')],
             JObject [(''name'', JString ''X-Metadata''), (''value'', JString ''{"order":12}'')]])])]\<close>

text \<open>The properties common to the events of that bounce, as lines 137 to 174 leave
  them.\<close>

definition bounce_common :: AnymailTrackingEvent where
  "bounce_common =
     \<lparr>event_type = EventType_UNKNOWN, timestamp = Some (Datetime ''2016-01-27T14:59:38Z''),
      event_id = JString ''m1'', esp_event = bounce_event, click_url = JNull,
      description = JNull, message_id = JString ''00000137860315fd'',
      metadata = JObject [(''order'', JInt 12)], mta_response = JNull, recipient = JNull,
      reject_reason = None, tags = [JString ''welcome''], user_agent = JNull\<rparr>"

text \<open>A complaint of two recipients.\<close>

definition complaint_entries :: "(string \<times> json) list list" where
  "complaint_entries =
     [[(''emailAddress'', JString ''jane@example.com'')],
      [(''emailAddress'', JString ''richard@example.com'')]]"

definition complaint_detail :: "(string \<times> json) list" where
  "complaint_detail =
     [(''complaintFeedbackType'', JString ''abuse''),
      (''userAgent'', JString ''ExampleCorp Feedback Loop (V0.01)''),
      (''complainedRecipients'', JArray (map JObject complaint_entries))]"

definition complaint_event :: json where
  "complaint_event =
     JObject
      [(''notificationType'', JString ''Complaint''),
       (''complaint'', JObject complaint_detail),
       (''mail'',
        JObject
         [(''messageId'', JString ''000001378603177f''),
          (''destination'',
           JArray [JString ''jane@example.com'', JString ''mary@example.com'',
                   JString ''richard@example.com''])])]"

text \<open>An event of a type the module does not know, with metadata that is not JSON.\<close>

definition subscription_event :: json where
  "subscription_event =
     JObject
      [(''eventType'', JString ''Subscription''),
       (''mail'',
        JObject
         [(''messageId'', JString ''0000013786031775''),
          (''destination'', JArray [JString ''jane@example.com'', JString ''mary@example.com'']),
          (''headers'',
           JArray
            [JObject [(''name'', JString ''X-METADATA''), (''value'', JString ''{order: 12'')]])])]"

text \<open>The envelope of a notification with a timestamp.\<close>

definition timed_notification :: "string \<Rightarrow> string \<Rightarrow> string \<Rightarrow> json" where
  "timed_notification sns_id sent message =
     JObject [(''Type'', JString ''Notification''), (''MessageId'', JString sns_id),
              (''Timestamp'', JString sent), (''Message'', JString message)]"

text \<open>The properties common to the events of \<open>subscription_event\<close> in a notification
  without a timestamp, and an event without a type.\<close>

definition subscription_common :: AnymailTrackingEvent where
  "subscription_common =
     \<lparr>event_type = EventType_UNKNOWN, timestamp = None,
      event_id = JString ''m4'', esp_event = subscription_event, click_url = JNull,
      description = JNull, message_id = JString ''0000013786031775'',
      metadata = JObject [], mta_response = JNull, recipient = JNull,
      reject_reason = None, tags = [], user_agent = JNull\<rparr>"

definition untyped_event :: "(string \<times> json) list" where
  "untyped_event = [(''mail'', JObject [(''destination'', JArray [JString ''jane@example.com''])])]"

text \<open>Four custom headers: metadata, metadata that is not JSON, metadata again, and
  once more metadata that is not JSON, in three spellings of the name.\<close>

definition metadata_header :: "string \<Rightarrow> string \<Rightarrow> json" where
  "metadata_header header_key v = JObject [(''name'', JString header_key), (''value'', JString v)]"

definition metadata_headers :: "json list" where
  \<open>metadata_headers =
     [metadata_header ''x-metadata'' ''{"order":12}'',
      metadata_header ''X-METADATA'' ''{order: 12'',
      metadata_header ''X-Metadata'' ''[13]'',
      metadata_header ''X-Metadata'' []]\<close>

text \<open>The properties common to the events of \<open>complaint_event\<close> in a notification without
  a timestamp, as the branch for complaints leaves them.\<close>

definition complaint_common :: AnymailTrackingEvent where
  "complaint_common =
     \<lparr>event_type = EventType_COMPLAINED, timestamp = None,
      event_id = JString ''m3'', esp_event = complaint_event, click_url = JNull,
      description = JString ''abuse'', message_id = JString ''000001378603177f'',
      metadata = JObject [], mta_response = JNull, recipient = JNull,
      reject_reason = Some RejectReason_SPAM, tags = [],
      user_agent = JString ''ExampleCorp Feedback Loop (V0.01)''\<rparr>"

text \<open>The example scenario of the spec: a delivery to two recipients.\<close>

definition delivery_message :: string where
  \<open>delivery_message =
     ''{"eventType":"Delivery","mail":{"messageId":"msg1",''
     @ ''"destination":["a@x.com","b@x.com"],"headers":[]},''
     @ ''"delivery":{"smtpResponse":"250 OK","recipients":["a@x.com","b@x.com"]}}''\<close>

definition delivery_event :: json where
  "delivery_event =
     JObject
      [(''eventType'', JString ''Delivery''),
       (''mail'',
        JObject
         [(''messageId'', JString ''msg1''),
          (''destination'', JArray [JString ''a@x.com'', JString ''b@x.com'']),
          (''headers'', JArray [])]),
       (''delivery'',
        JObject
         [(''smtpResponse'', JString ''250 OK''),
          (''recipients'', JArray [JString ''a@x.com'', JString ''b@x.com''])])]"

definition delivery_common :: AnymailTrackingEvent where
  "delivery_common =
     \<lparr>event_type = EventType_DELIVERED, timestamp = None,
      event_id = JString ''m1'', esp_event = delivery_event, click_url = JNull,
      description = JNull, message_id = JString ''msg1'',
      metadata = JObject [], mta_response = JString ''250 OK'', recipient = JNull,
      reject_reason = None, tags = [], user_agent = JNull\<rparr>"


text \<open>A text of a thousand opening brackets: not JSON, and nested deeper than CPython
  follows.\<close>

definition deep_text :: string where
  "deep_text = replicate 1000 (CHR ''['')"

text \<open>A Send event to one recipient with the given custom headers, and the properties
  common to its events, with the given tags and metadata, in a notification without a
  timestamp.\<close>

definition send_event :: "json list \<Rightarrow> json" where
  "send_event header_list =
     JObject
      [(''eventType'', JString ''Send''),
       (''mail'',
        JObject
         [(''messageId'', JString ''msg2''),
          (''destination'', JArray [JString ''jane@example.com'']),
          (''headers'', JArray header_list)])]"

definition send_common :: "json list \<Rightarrow> json list \<Rightarrow> json \<Rightarrow> AnymailTrackingEvent" where
  "send_common header_list tgs md =
     \<lparr>event_type = EventType_UNKNOWN, timestamp = None,
      event_id = JString ''m6'', esp_event = send_event header_list, click_url = JNull,
      description = JNull, message_id = JString ''msg2'',
      metadata = md, mta_response = JNull, recipient = JNull,
      reject_reason = None, tags = tgs, user_agent = JNull\<rparr>"

text \<open>An event of the given subtype to two recipients, with the given members beside
  \<^verbatim>\<open>eventType\<close> and \<^verbatim>\<open>mail\<close>; the properties common to its events in a notification
  without a timestamp, as lines 137 to 174 leave them; and the default
  \<^verbatim>\<open>per_recipient_props\<close>.\<close>

definition typed_event :: "string \<Rightarrow> (string \<times> json) list \<Rightarrow> json" where
  "typed_event subtype members =
     JObject
      ((''eventType'', JString subtype)
       # (''mail'',
          JObject
           [(''messageId'', JString ''msg1''),
            (''destination'', JArray [JString ''a@x.com'', JString ''b@x.com''])])
       # members)"

definition typed_common :: "string \<Rightarrow> (string \<times> json) list \<Rightarrow> AnymailTrackingEvent" where
  "typed_common subtype members =
     \<lparr>event_type = EventType_UNKNOWN, timestamp = None,
      event_id = JString ''m1'', esp_event = typed_event subtype members, click_url = JNull,
      description = JNull, message_id = JString ''msg1'',
      metadata = JObject [], mta_response = JNull, recipient = JNull,
      reject_reason = None, tags = [], user_agent = JNull\<rparr>"

definition two_recipients :: "recipient_props list" where
  "two_recipients =
     [\<lparr>rp_recipient = JString ''a@x.com'', rp_mta_response = None\<rparr>,
      \<lparr>rp_recipient = JString ''b@x.com'', rp_mta_response = None\<rparr>]"

section \<open>Basic facts\<close>

lemma bnd_Inl [simp]: "bnd (Inl e) f = Inl e"
  by (simp add: bnd_def)

lemma bnd_Inr [simp]: "bnd (Inr x) f = f x"
  by (simp add: bnd_def)

lemma dict_get_JObject [simp]:
  "dict_get (JObject kvs) key dflt = Inr (case map_of kvs key of Some v \<Rightarrow> v | None \<Rightarrow> dflt)"
  by (simp add: dict_get_def)

lemma subscript_JObject [simp]:
  "subscript (JObject kvs) key = (case map_of kvs key of Some v \<Rightarrow> Inr v | None \<Rightarrow> Inl KeyError)"
  by (simp add: subscript_def)

subsection \<open>The envelope decoder\<close>

lemma parse_sns_message_cached:
  "sns_message_attr (req w) = Some m \<Longrightarrow> parse_sns_message rt w = (Inr m, w)"
  by (simp add: parse_sns_message_def)

lemma parse_sns_message_fresh:
  assumes "sns_message_attr (req w) = None"
  shows "parse_sns_message rt w =
     (case bytes_decode rt (body (req w))
             (case encoding (req w) of
                None \<Rightarrow> ''utf-8'' | Some enc \<Rightarrow> if enc = [] then ''utf-8'' else enc) of
        Inl err \<Rightarrow>
          (if err = TypeError \<or> isinstance_ValueError err
           then Inl (AnymailWebhookValidationFailure
                       (''Malformed SNS message body '' @ repr_bytes rt (body (req w))))
           else Inl err, w)
      | Inr txt \<Rightarrow>
          (case json_loads rt txt of
             Inl err \<Rightarrow>
               (if err = TypeError \<or> isinstance_ValueError err
                then Inl (AnymailWebhookValidationFailure
                            (''Malformed SNS message body '' @ repr_bytes rt (body (req w))))
                else Inl err,
                w\<lparr>body_loads := Suc (body_loads w)\<rparr>)
           | Inr m \<Rightarrow> (Inr m, decoded w m)))"
  using assms by (simp add: parse_sns_message_def decoded_def split: sum.splits)

lemma parse_sns_message_Inr:
  assumes "parse_sns_message rt w = (Inr m, w')"
  shows "(sns_message_attr (req w) = Some m \<and> w' = w)
         \<or> (sns_message_attr (req w) = None \<and> w' = decoded w m)"
proof (cases "sns_message_attr (req w)")
  case None
  then show ?thesis
    using assms by (auto simp: parse_sns_message_fresh split: sum.splits if_splits)
next
  case (Some m')
  then show ?thesis
    using assms by (simp add: parse_sns_message_cached)
qed

lemma parse_sns_message_caches:
  "parse_sns_message rt w = (Inr m, w') \<Longrightarrow> sns_message_attr (req w') = Some m"
  by (auto simp: decoded_def dest!: parse_sns_message_Inr)

lemma parse_sns_message_request:
  "parse_sns_message rt w = (Inr m, w') \<Longrightarrow> req w' = (req w)\<lparr>sns_message_attr := Some m\<rparr>"
  by (auto simp: decoded_def dest!: parse_sns_message_Inr)

lemma parse_sns_message_frame:
  assumes "parse_sns_message rt w = (r, w')"
  shows "http_gets w' = http_gets w \<and> signals_sent w' = signals_sent w
     \<and> body (req w') = body (req w) \<and> encoding (req w') = encoding (req w)
     \<and> META (req w') = META (req w)
     \<and> body_loads w \<le> body_loads w' \<and> body_loads w' \<le> Suc (body_loads w)"
proof (cases "sns_message_attr (req w)")
  case None
  then show ?thesis
    using assms by (auto simp: parse_sns_message_fresh decoded_def split: sum.splits if_splits)
next
  case (Some m')
  then show ?thesis
    using assms by (auto simp: parse_sns_message_cached)
qed

subsection \<open>The validator and the dispatch on the envelope's type\<close>

lemma validate_request_decoded:
  assumes decode: "parse_sns_message rt w = (Inr (JObject kvs), w')"
  shows \<open>validate_request rt w =
      (let header_type = (case map_of (META (req w)) ''HTTP_X_AMZ_SNS_MESSAGE_TYPE'' of
                            Some h \<Rightarrow> h | None \<Rightarrow> ''<<missing>>'');
           body_type = (case map_of kvs ''Type'' of Some v \<Rightarrow> v | None \<Rightarrow> JString ''<<missing>>'');
           header_id = (case map_of (META (req w)) ''HTTP_X_AMZ_SNS_MESSAGE_ID'' of
                          Some h \<Rightarrow> h | None \<Rightarrow> ''<<missing>>'');
           body_id = (case map_of kvs ''MessageId'' of Some v \<Rightarrow> v | None \<Rightarrow> JString ''<<missing>>'')
       in (if JString header_type \<noteq> body_type then
             Inl (AnymailWebhookValidationFailure
                    (''SNS header "x-amz-sns-message-type: '' @ header_type
                       @ ''" doesn't match body "Type": "'' @ str rt body_type @ ''"''))
           else if header_type \<notin> {''Notification'', ''SubscriptionConfirmation'',
                                     ''UnsubscribeConfirmation''} then
             Inl (AnymailWebhookValidationFailure
                    (''Unknown SNS message type '' @ quoted header_type))
           else if JString header_id \<noteq> body_id then
             Inl (AnymailWebhookValidationFailure
                    (''SNS header "x-amz-sns-message-id: '' @ header_id
                       @ ''" doesn't match body "MessageId": "'' @ str rt body_id @ ''"''))
           else Inr (), w'))\<close>
proof -
  have "META (req w') = META (req w)"
    using parse_sns_message_frame [OF decode] by simp
  then show ?thesis
    by (simp add: validate_request_def decode Let_def quoted_def)
qed

lemma validate_request_not_decoded:
  "parse_sns_message rt w = (Inl err, w') \<Longrightarrow> validate_request rt w = (Inl err, w')"
  by (simp add: validate_request_def)

lemma validate_request_not_object:
  assumes "parse_sns_message rt w = (Inr m, w')" and "\<And>kvs. m \<noteq> JObject kvs"
  shows "validate_request rt w = (Inl AttributeError, w')"
proof (cases m)
  case (JObject kvs)
  then show ?thesis using assms(2) by simp
qed (use assms(1) in \<open>simp_all add: validate_request_def dict_get_def\<close>)

lemma validate_request_Inr:
  assumes ok: "validate_request rt w = (Inr u, w')"
  shows "\<exists>kvs. parse_sns_message rt w = (Inr (JObject kvs), w')
           \<and> map_of kvs ''Type'' \<in> {Some (JString ''Notification''),
                 Some (JString ''SubscriptionConfirmation''),
                 Some (JString ''UnsubscribeConfirmation'')}"
proof -
  obtain r w1 where p: "parse_sns_message rt w = (r, w1)"
    by (cases "parse_sns_message rt w")
  show ?thesis
  proof (cases r)
    case (Inl err)
    then show ?thesis
      using ok p by (simp add: validate_request_not_decoded)
  next
    case (Inr m)
    show ?thesis
    proof (cases "\<exists>kvs. m = JObject kvs")
      case False
      then show ?thesis
        using ok p Inr validate_request_not_object [of rt w m w1] by simp
    next
      case True
      then obtain kvs where m: "m = JObject kvs" ..
      have d: "parse_sns_message rt w = (Inr (JObject kvs), w1)"
        using p Inr m by simp
      show ?thesis
        using ok validate_request_decoded [OF d] d
        by (auto simp: Let_def split: if_splits option.splits)
    qed
  qed
qed

lemma auto_confirm_sns_subscription_frame:
  assumes "auto_confirm_sns_subscription rt self m w = (r, w')"
  shows "req w' = req w \<and> body_loads w' = body_loads w \<and> signals_sent w' = signals_sent w
         \<and> (http_gets w' = http_gets w \<or> (\<exists>url. http_gets w' = http_gets w @ [url]))"
  using assms
  by (auto simp: auto_confirm_sns_subscription_def split: if_splits sum.splits)

lemma parse_events_cached:
  assumes cached: "sns_message_attr (req w) = Some (JObject kvs)"
  shows "parse_events e2a rt self w =
     (if map_of kvs ''Type'' = Some (JString ''Notification'') then
        (let message_string = (case map_of kvs ''Message'' of Some m \<Rightarrow> m | None \<Rightarrow> JNull)
         in case json_loads_value rt message_string of
              Inl err \<Rightarrow>
                if err = TypeError \<or> isinstance_ValueError err then
                  (if message_string = JString
                        ''Successfully validated SNS topic for Amazon SES event publishing.''
                   then (Inr [], w)
                   else (Inl (AnymailWebhookValidationFailure
                                (''Unparsable SNS Message '' @ repr rt message_string)), w))
                else (Inl err, w)
            | Inr ses_event \<Rightarrow> (e2a rt ses_event (JObject kvs), w))
      else if map_of kvs ''Type'' = Some (JString ''SubscriptionConfirmation'') then
        (case auto_confirm_sns_subscription rt self (JObject kvs) w of
           (Inl err, w'') \<Rightarrow> (Inl err, w'')
         | (Inr _, w'') \<Rightarrow> (Inr [], w''))
      else (Inr [], w))"
  by (simp add: parse_events_def parse_sns_message_cached [OF cached] Let_def
      split: option.splits)

lemma parse_events_frame:
  assumes cached: "sns_message_attr (req w) = Some (JObject kvs)"
    and run: "parse_events e2a rt self w = (r, w')"
  shows "req w' = req w \<and> body_loads w' = body_loads w \<and> signals_sent w' = signals_sent w
         \<and> (http_gets w' = http_gets w \<or> (\<exists>url. http_gets w' = http_gets w @ [url]))"
proof (cases "map_of kvs ''Type'' = Some (JString ''SubscriptionConfirmation'')")
  case True
  obtain r1 w1 where a: "auto_confirm_sns_subscription rt self (JObject kvs) w = (r1, w1)"
    by (cases "auto_confirm_sns_subscription rt self (JObject kvs) w")
  have "w' = w1"
    using run True a by (cases r1) (simp_all add: parse_events_cached [OF cached])
  then show ?thesis
    using auto_confirm_sns_subscription_frame [OF a] by simp
next
  case False
  then have "w' = w"
    using run
    by (auto simp: parse_events_cached [OF cached] Let_def split: if_splits sum.splits)
  then show ?thesis by simp
qed

lemma base_post_frame:
  "body_loads (snd (base_post e2a rt self w)) \<le> Suc (body_loads w)
   \<and> length (http_gets (snd (base_post e2a rt self w))) \<le> Suc (length (http_gets w))"
proof -
  obtain r w1 where v: "validate_request rt w = (r, w1)"
    by (cases "validate_request rt w")
  obtain r0 w0 where p: "parse_sns_message rt w = (r0, w0)"
    by (cases "parse_sns_message rt w")
  have w1: "w1 = w0"
    using v p by (auto simp: validate_request_def Let_def split: sum.splits if_splits)
  note f = parse_sns_message_frame [OF p]
  show ?thesis
  proof (cases r)
    case (Inl err)
    then show ?thesis
      using v w1 f by (simp add: base_post_def)
  next
    case (Inr u)
    then obtain kvs where d: "parse_sns_message rt w = (Inr (JObject kvs), w1)"
      using validate_request_Inr [of rt w u w1] v by auto
    have cached: "sns_message_attr (req w1) = Some (JObject kvs)"
      using parse_sns_message_caches [OF d] .
    obtain r2 w2 where e: "parse_events e2a rt self w1 = (r2, w2)"
      by (cases "parse_events e2a rt self w1")
    have "body_loads w2 = body_loads w1 \<and> length (http_gets w2) \<le> Suc (length (http_gets w1))"
      using parse_events_frame [OF cached e] by auto
    then show ?thesis
      using v Inr e w1 f by (cases r2) (simp_all add: base_post_def)
  qed
qed

subsection \<open>The normalizer\<close>

lemma esp_to_anymail_events_common:
  assumes "common_props rt ses_event sns_message
             = Inr (common, per_recipient_props, ses_event_type, event_object)"
  shows "esp_to_anymail_events rt ses_event sns_message =
     bnd (update_for_event_type rt ses_event ses_event_type event_object common per_recipient_props)
       (\<lambda>(common', per_recipient_props'). Inr (map (combine common') per_recipient_props'))"
  using assms by (simp add: esp_to_anymail_events_def)

lemma bnd_Inr_iff:
  "bnd m f = Inr y \<longleftrightarrow> (\<exists>x. m = Inr x \<and> f x = Inr y)"
  by (cases m) simp_all

lemma map_exn_no_mta_response:
  assumes "map_exn (\<lambda>recipient. bnd (subscript recipient key)
                     (\<lambda>a. Inr \<lparr>rp_recipient = a, rp_mta_response = None\<rparr>)) xs = Inr ps"
  shows "\<forall>p \<in> set ps. rp_mta_response p = None"
  using assms
proof (induction xs arbitrary: ps)
  case Nil
  then show ?case by simp
next
  case (Cons x xs)
  then show ?case by (auto simp: bnd_Inr_iff)
qed

lemma common_props_Inr:
  assumes "common_props rt ses_event sns_message
             = Inr (common, per_recipient_props, ses_event_type, event_object)"
  shows "\<exists>mail_object all_recipients addresses key.
           dict_get ses_event ''mail'' (JObject []) = Inr mail_object
           \<and> dict_get mail_object ''destination'' (JArray []) = Inr all_recipients
           \<and> iterate all_recipients = Inr addresses
           \<and> per_recipient_props
               = map (\<lambda>a. \<lparr>rp_recipient = a, rp_mta_response = None\<rparr>) addresses
           \<and> recover_tags_and_metadata rt mail_object = Inr (tags common, metadata common)
           \<and> dict_get sns_message ''MessageId'' JNull = Inr (event_id common)
           \<and> dict_get mail_object ''messageId'' JNull = Inr (message_id common)
           \<and> parse_timestamp rt sns_message = Inr (timestamp common)
           \<and> esp_event common = ses_event
           \<and> mta_response common = JNull \<and> recipient common = JNull
           \<and> getfirst ses_event [''eventType'', ''notificationType''] (JString ''<<type missing>>'')
               = Inr ses_event_type
           \<and> lower ses_event_type = Inr key
           \<and> dict_get ses_event key (JObject []) = Inr event_object"
  using assms unfolding common_props_def
  by (auto simp: bnd_Inr_iff split: prod.splits)

lemma scan_headers_append:
  "scan_headers rt acc (xs @ ys) = bnd (scan_headers rt acc xs) (\<lambda>acc'. scan_headers rt acc' ys)"
proof (induction xs arbitrary: acc)
  case Nil
  then show ?case by simp
next
  case (Cons x xs)
  then show ?case by (cases "scan_header rt acc x") simp_all
qed

lemma scan_header_invalid:
  assumes "invalid_metadata_header rt header"
  shows "scan_header rt acc header = Inr acc"
proof -
  obtain nm where nm: "subscript header ''name'' = Inr nm" and low: "lower nm = Inr ''x-metadata''"
    using assms by (auto simp: invalid_metadata_header_def header_name_def bnd_Inr_iff)
  obtain err where err: "bnd (subscript header ''value'') (json_loads_value rt) = Inl err"
    and caught: "isinstance_ValueError err \<or> err = TypeError \<or> err = KeyError"
    using assms by (auto simp: invalid_metadata_header_def split: sum.splits)
  show ?thesis
    using caught by (cases acc) (auto simp: scan_header_def nm low err)
qed

lemma scan_header_metadata:
  assumes "scan_header rt (tgs, md) header = Inr (tgs', md')"
  shows "md' = (case metadata_of_header rt header of Some v \<Rightarrow> v | None \<Rightarrow> md)"
proof -
  obtain nm name where nm: "subscript header ''name'' = Inr nm" and low: "lower nm = Inr name"
    using assms by (auto simp: scan_header_def bnd_Inr_iff)
  have hn: "header_name header = Inr name"
    by (simp add: header_name_def nm low)
  show ?thesis
    using assms
    by (auto simp: scan_header_def nm low hn metadata_of_header_def bnd_Inr_iff
        split: if_splits sum.splits)
qed

lemma scan_headers_metadata:
  assumes "scan_headers rt (tgs, md) hs = Inr (tgs', md')"
  shows "md' = last_metadata rt md hs"
  using assms
proof (induction hs arbitrary: tgs md)
  case Nil
  then show ?case by (simp add: last_metadata_def)
next
  case (Cons h hs)
  from Cons.prems obtain tgs1 md1 where
    step: "scan_header rt (tgs, md) h = Inr (tgs1, md1)"
    and rest: "scan_headers rt (tgs1, md1) hs = Inr (tgs', md')"
    by (auto simp: bnd_Inr_iff)
  have "md1 = (case metadata_of_header rt h of Some v \<Rightarrow> v | None \<Rightarrow> md)"
    using step by (rule scan_header_metadata)
  then show ?case
    using Cons.IH [OF rest] by (simp add: last_metadata_def)
qed

lemma update_for_event_type_common:
  assumes "update_for_event_type rt ses_event t eo c dp = Inr (c', ps)"
  shows "timestamp c' = timestamp c \<and> event_id c' = event_id c \<and> esp_event c' = esp_event c
         \<and> message_id c' = message_id c \<and> metadata c' = metadata c \<and> tags c' = tags c
         \<and> recipient c' = recipient c"
  using assms unfolding update_for_event_type_def
  by (auto simp: bnd_Inr_iff split: if_splits)

lemma esp_to_anymail_events_Inr:
  assumes "esp_to_anymail_events rt ses_event sns_message = Inr events"
  shows "\<exists>c dp t eo c' ps.
           common_props rt ses_event sns_message = Inr (c, dp, t, eo)
           \<and> update_for_event_type rt ses_event t eo c dp = Inr (c', ps)
           \<and> events = map (combine c') ps"
  using assms unfolding esp_to_anymail_events_def
  by (auto simp: bnd_Inr_iff split: prod.splits)

lemma update_for_event_type_mta_response:
  assumes branch: "update_for_event_type rt ses_event t eo c dp = Inr (c', ps)"
    and dflt: "\<forall>p \<in> set dp. rp_mta_response p = None"
    and other: "t \<noteq> JString ''Bounce''"
  shows "\<forall>p \<in> set ps. rp_mta_response p = None"
proof (cases "t = JString ''Complaint''")
  case True
  then obtain rs where
    "map_exn (\<lambda>recipient. bnd (subscript recipient ''emailAddress'')
                (\<lambda>a. Inr \<lparr>rp_recipient = a, rp_mta_response = None\<rparr>)) rs = Inr ps"
    using branch by (auto simp: update_for_event_type_def bnd_Inr_iff)
  then show ?thesis
    by (rule map_exn_no_mta_response)
next
  case False
  then show ?thesis
    using branch dflt other unfolding update_for_event_type_def
    by (auto simp: bnd_Inr_iff split: if_splits)
qed

lemma update_for_event_type_complaint:
  assumes "update_for_event_type rt ses_event (JString ''Complaint'') eo c dp = Inr (c', ps)"
  shows "mta_response c' = mta_response c"
  using assms by (auto simp: update_for_event_type_def bnd_Inr_iff)

subsection \<open>The example runtime on a text nested too deep\<close>

lemma read_value_brackets:
  assumes "level + k = 999" and "2 * k < n"
  shows "read_value n level (replicate (Suc k) (CHR ''['') @ rest) = Inl RecursionError"
  using assms
proof (induction k arbitrary: n level)
  case 0
  then obtain n' where "n = Suc n'"
    by (cases n) simp_all
  then show ?case
    using 0 by simp
next
  case (Suc k)
  then obtain n' where n: "n = Suc (Suc n')" and fuel: "2 * k < n'"
    by (cases n; cases "n - 1") simp_all
  have inner: "read_value n' (Suc level) (replicate (Suc k) (CHR ''['') @ rest) = Inl RecursionError"
    using Suc.IH [of "Suc level" n'] Suc.prems fuel by simp
  have "read_items (Suc n') (Suc level) [] (replicate (Suc k) (CHR ''['') @ rest) = Inl RecursionError"
    by (simp only: read_items.simps inner bnd_Inl)
  then show ?case
    using Suc.prems by (simp add: n skip_ws_def is_ws_def nested_def del: read_items.simps)
qed

lemma example_json_loads_deep_text:
  "example_json_loads deep_text = Inl RecursionError"
proof -
  have shape: "deep_text = replicate (Suc 999) (CHR ''['') @ []"
    by (simp add: deep_text_def)
  have len: "length deep_text = 1000"
    by (simp add: deep_text_def)
  have skip: "skip_ws (replicate (Suc 999) (CHR ''['') @ []) = replicate (Suc 999) (CHR ''['') @ []"
    by (simp add: skip_ws_def is_ws_def)
  have "read_value (2 * 1000 + 2) 0 (replicate (Suc 999) (CHR ''['') @ []) = Inl RecursionError"
    by (rule read_value_brackets) simp_all
  then show ?thesis
    unfolding example_json_loads_def len unfolding shape skip by simp
qed

lemma json_loads_deep_text:
  "json_loads example_runtime deep_text = Inl RecursionError"
  by (simp add: example_runtime_def example_json_loads_deep_text)

lemma json_loads_value_deep_text:
  "json_loads_value example_runtime (JString deep_text) = Inl RecursionError"
  by (simp add: json_loads_value_def json_loads_deep_text)

lemma deep_text_not_acknowledgment:
  "deep_text \<noteq> ''Successfully validated SNS topic for Amazon SES event publishing.''"
proof
  assume "deep_text = ''Successfully validated SNS topic for Amazon SES event publishing.''"
  then have "length deep_text
      = length ''Successfully validated SNS topic for Amazon SES event publishing.''"
    by (rule arg_cong)
  then show False
    by (simp add: deep_text_def)
qed

subsection \<open>The loop over the custom headers\<close>

lemma scan_headers_filter:
  "scan_headers rt acc hs
     = scan_headers rt acc (filter (\<lambda>h. \<not> invalid_metadata_header rt h) hs)"
proof (induction hs arbitrary: acc)
  case Nil
  then show ?case by simp
next
  case (Cons h hs)
  show ?case
  proof (cases "invalid_metadata_header rt h")
    case True
    then show ?thesis
      using Cons.IH [of acc] by (simp add: scan_header_invalid)
  next
    case False
    then show ?thesis
      using Cons.IH by (cases "scan_header rt acc h") simp_all
  qed
qed

lemma last_metadata_none:
  assumes "\<forall>h \<in> set hs. metadata_of_header rt h = None"
  shows "last_metadata rt m hs = m"
  using assms by (induction hs arbitrary: m) (simp_all add: last_metadata_def)

lemma last_metadata_last:
  assumes "metadata_of_header rt header = Some v"
    and "\<forall>h \<in> set after. metadata_of_header rt h = None"
  shows "last_metadata rt m (before @ header # after) = v"
proof -
  have "last_metadata rt m (before @ header # after) = last_metadata rt v after"
    using assms(1) by (simp add: last_metadata_def)
  then show ?thesis
    using last_metadata_none [OF assms(2)] by simp
qed

lemma scan_header_uncaught:
  assumes name: "header_name header = Inr ''x-metadata''"
    and err: "bnd (subscript header ''value'') (json_loads_value rt) = Inl err"
    and uncaught: "\<not> (isinstance_ValueError err \<or> err = TypeError \<or> err = KeyError)"
  shows "scan_header rt acc header = Inl err"
proof -
  obtain nm where nm: "subscript header ''name'' = Inr nm" and low: "lower nm = Inr ''x-metadata''"
    using name by (auto simp: header_name_def bnd_Inr_iff)
  show ?thesis
    using uncaught by (cases acc) (auto simp: scan_header_def nm low err)
qed

lemma invalid_metadata_header_None:
  "invalid_metadata_header rt header \<Longrightarrow> metadata_of_header rt header = None"
  by (auto simp: invalid_metadata_header_def metadata_of_header_def split: sum.splits)

lemma common_props_parts:
  assumes id: "dict_get sns_message ''MessageId'' JNull = Inr eid"
    and ts: "parse_timestamp rt sns_message = Inr ts"
    and mail: "dict_get ses_event ''mail'' (JObject []) = Inr (JObject mail)"
    and msgid: "dict_get (JObject mail) ''messageId'' JNull = Inr mid"
    and hdrs: "mail_headers ses_event = Inr header_list"
    and scan: "scan_headers rt ([], JObject []) header_list = Inr (tgs, md)"
    and dest: "all_recipients ses_event = Inr addresses"
    and subtype: "getfirst ses_event [''eventType'', ''notificationType'']
                    (JString ''<<type missing>>'') = Inr ses_event_type"
    and key: "lower ses_event_type = Inr key"
    and detail: "dict_get ses_event key (JObject []) = Inr event_object"
  shows "common_props rt ses_event sns_message =
           Inr (\<lparr>event_type = EventType_UNKNOWN, timestamp = ts, event_id = eid,
                  esp_event = ses_event, click_url = JNull, description = JNull,
                  message_id = mid, metadata = md, mta_response = JNull,
                  recipient = JNull, reject_reason = None, tags = tgs, user_agent = JNull\<rparr>,
                map (\<lambda>email_address. \<lparr>rp_recipient = email_address, rp_mta_response = None\<rparr>)
                  addresses,
                ses_event_type, event_object)"
proof -
  have d: "bnd (dict_get (JObject mail) ''destination'' (JArray [])) iterate = Inr addresses"
    using dest by (simp add: all_recipients_def mail)
  have h: "bnd (dict_get (JObject mail) ''headers'' (JArray [])) iterate = Inr header_list"
    using hdrs by (simp add: mail_headers_def mail)
  have r: "recover_tags_and_metadata rt (JObject mail) = Inr (tgs, md)"
    using h scan by (auto simp: recover_tags_and_metadata_def bnd_Inr_iff)
  obtain ds where ds: "dict_get (JObject mail) ''destination'' (JArray []) = Inr ds"
    and it: "iterate ds = Inr addresses"
    using d by (auto simp: bnd_Inr_iff)
  show ?thesis
    unfolding common_props_def
    by (simp only: id ts mail msgid ds r it subtype key detail bnd_Inr prod.case)
qed

subsection \<open>The recipients of a bounce and of a complaint\<close>

lemma map_exn_bounced_recipients:
  assumes "\<forall>entry \<in> set entries. map_of entry ''emailAddress'' \<noteq> None"
  shows "map_exn (\<lambda>recipient.
               bnd (subscript recipient ''emailAddress'') (\<lambda>a.
               bnd (dict_get recipient ''diagnosticCode'' JNull) (\<lambda>c.
                 Inr \<lparr>rp_recipient = a, rp_mta_response = Some c\<rparr>))) (map JObject entries)
     = Inr (map (\<lambda>entry. \<lparr>rp_recipient = the (map_of entry ''emailAddress''),
                          rp_mta_response = Some (case map_of entry ''diagnosticCode'' of
                                                    Some code \<Rightarrow> code | None \<Rightarrow> JNull)\<rparr>)
              entries)"
  using assms by (induction entries) auto

lemma map_exn_complained_recipients:
  assumes "\<forall>entry \<in> set entries. map_of entry ''emailAddress'' \<noteq> None"
  shows "map_exn (\<lambda>recipient.
               bnd (subscript recipient ''emailAddress'') (\<lambda>a.
                 Inr \<lparr>rp_recipient = a, rp_mta_response = None\<rparr>)) (map JObject entries)
     = Inr (map (\<lambda>entry. \<lparr>rp_recipient = the (map_of entry ''emailAddress''),
                          rp_mta_response = None\<rparr>)
              entries)"
  using assms by (induction entries) auto

lemma common_props_recipients:
  assumes common: "common_props rt ses_event sns_message
                     = Inr (common, default_props, ses_event_type, event_object)"
    and full: "all_recipients ses_event = Inr addresses"
  shows "default_props
           = map (\<lambda>a. \<lparr>rp_recipient = a, rp_mta_response = None\<rparr>) addresses"
proof -
  obtain mail_object ds addresses' where
    mail: "dict_get ses_event ''mail'' (JObject []) = Inr mail_object"
    and dest: "dict_get mail_object ''destination'' (JArray []) = Inr ds"
    and it: "iterate ds = Inr addresses'"
    and dp: "default_props = map (\<lambda>a. \<lparr>rp_recipient = a, rp_mta_response = None\<rparr>) addresses'"
    using common_props_Inr [OF common] by blast
  have "all_recipients ses_event = Inr addresses'"
    by (simp add: all_recipients_def mail dest it)
  then show ?thesis
    using full dp by simp
qed

lemma events_pairwise:
  assumes common: "common_props rt ses_event sns_message
                     = Inr (common, default_props, ses_event_type, event_object)"
    and run: "esp_to_anymail_events rt ses_event sns_message = Inr events"
    and e1: "e1 \<in> set events" and e2: "e2 \<in> set events"
  shows "e1\<lparr>recipient := recipient e2, mta_response := mta_response e2\<rparr> = e2"
    and "ses_event_type \<noteq> JString ''Bounce'' \<Longrightarrow> mta_response e1 = mta_response e2"
proof -
  obtain c' ps where
    branch: "update_for_event_type rt ses_event ses_event_type event_object common default_props
               = Inr (c', ps)"
    and events: "events = map (combine c') ps"
    using run by (auto simp: esp_to_anymail_events_common [OF common] bnd_Inr_iff)
  show "e1\<lparr>recipient := recipient e2, mta_response := mta_response e2\<rparr> = e2"
    using e1 e2 by (auto simp: events combine_def)
  have dp: "\<forall>p \<in> set default_props. rp_mta_response p = None"
    using common_props_Inr [OF common] by auto
  show "mta_response e1 = mta_response e2" if "ses_event_type \<noteq> JString ''Bounce''"
    using update_for_event_type_mta_response [OF branch dp that] e1 e2
    by (auto simp: events combine_def)
qed

section \<open>The envelope decoder\<close>

text \<open>
  Claim C5, as stated, fails on the code. A body that is not JSON makes
  \<^verbatim>\<open>_parse_sns_message\<close> raise \<^verbatim>\<open>AnymailWebhookValidationFailure\<close>, the exception of every
  other validation failure and not one of a kind of its own.
\<close>

theorem parse_sns_message_counterexample:
  "fst (parse_sns_message example_runtime (arriving ''not json'' []))
     = Inl (AnymailWebhookValidationFailure (''Malformed SNS message body b'' @ quoted ''not json''))
   \<and> raises_validation_failure (fst (parse_sns_message example_runtime (arriving ''not json'' [])))"
  by code_simp

text \<open>
  Claim C5, amended. On a request with nothing cached: when the body cannot be decoded
  in the request's encoding (UTF-8 by default) or the text is not JSON, that is, when
  \<^verbatim>\<open>bytes.decode\<close> or \<^verbatim>\<open>json.loads\<close> raises a \<^verbatim>\<open>ValueError\<close> or a \<^verbatim>\<open>TypeError\<close>,
  \<^verbatim>\<open>_parse_sns_message\<close> raises the validation failure "Malformed SNS message body" with
  the \<^verbatim>\<open>repr\<close> of the body; an exception of another kind it does not catch, and ends
  with it. Whatever the decoder raises is fatal for the request and nothing is
  processed in part: nothing is cached on the request, \<^verbatim>\<open>validate_request\<close> and the base
  class's \<^verbatim>\<open>post\<close> end with that exception in the state the decoder left, and \<^verbatim>\<open>post\<close> ends
  with it too unless it has answered the challenge of line 64 before decoding anything;
  in both cases no event is handed to the signal. The amended claim says nothing of a
  body that is JSON but not an object.
\<close>

theorem parse_sns_message_malformed:
  assumes fresh: "sns_message_attr (req w) = None"
  defines "codec \<equiv> (case encoding (req w) of
                      None \<Rightarrow> ''utf-8'' | Some enc \<Rightarrow> if enc = [] then ''utf-8'' else enc)"
  shows
    "(\<forall>err. bytes_decode rt (body (req w)) codec = Inl err \<longrightarrow>
        parse_sns_message rt w =
          (if err = TypeError \<or> isinstance_ValueError err
           then Inl (AnymailWebhookValidationFailure
                       (''Malformed SNS message body '' @ repr_bytes rt (body (req w))))
           else Inl err, w))
     \<and> (\<forall>txt err. bytes_decode rt (body (req w)) codec = Inr txt \<and> json_loads rt txt = Inl err \<longrightarrow>
        parse_sns_message rt w =
          (if err = TypeError \<or> isinstance_ValueError err
           then Inl (AnymailWebhookValidationFailure
                       (''Malformed SNS message body '' @ repr_bytes rt (body (req w))))
           else Inl err,
           w\<lparr>body_loads := Suc (body_loads w)\<rparr>))
     \<and> (\<forall>err w'. parse_sns_message rt w = (Inl err, w') \<longrightarrow>
        sns_message_attr (req w') = None
        \<and> signals_sent w' = signals_sent w
        \<and> validate_request rt w = (Inl err, w')
        \<and> base_post e2a rt self w = (Inl err, w')
        \<and> post e2a rt self w = (if challenged self w then (Inr challenge, w) else (Inl err, w')))"
proof -
  have "sns_message_attr (req w') = None
        \<and> signals_sent w' = signals_sent w
        \<and> validate_request rt w = (Inl err, w')
        \<and> base_post e2a rt self w = (Inl err, w')
        \<and> post e2a rt self w = (if challenged self w then (Inr challenge, w) else (Inl err, w'))"
    if p: "parse_sns_message rt w = (Inl err, w')" for err w'
  proof -
    have v: "validate_request rt w = (Inl err, w')"
      using p by (rule validate_request_not_decoded)
    have "sns_message_attr (req w') = None"
      using p fresh by (auto simp: parse_sns_message_fresh split: sum.splits if_splits)
    then show ?thesis
      using v parse_sns_message_frame [OF p]
      by (simp add: base_post_def post_def challenged_def challenge_def)
  qed
  then show ?thesis
    unfolding codec_def by (simp add: parse_sns_message_fresh [OF fresh])
qed

theorem parse_sns_message_malformed_witness:
  "parse_sns_message example_runtime (arriving ''not json'' [])
     = (Inl (AnymailWebhookValidationFailure (''Malformed SNS message body b'' @ quoted ''not json'')),
        (arriving ''not json'' [])\<lparr>body_loads := 1\<rparr>)
   \<and> parse_sns_message example_runtime (arriving [CHR 0xFF] [])
     = (Inl (AnymailWebhookValidationFailure
               (''Malformed SNS message body b'' @ quoted [CHR 0x5C, CHR ''x'', CHR ''f'', CHR ''f''])),
        arriving [CHR 0xFF] [])
   \<and> parse_sns_message example_runtime (arriving deep_text [])
     = (Inl RecursionError, (arriving deep_text [])\<lparr>body_loads := 1\<rparr>)
   \<and> \<not> challenged view_without_secret (arriving ''not json'' [])
   \<and> post esp_to_anymail_events example_runtime view_without_secret (arriving ''not json'' [])
     = (Inl (AnymailWebhookValidationFailure (''Malformed SNS message body b'' @ quoted ''not json'')),
        (arriving ''not json'' [])\<lparr>body_loads := 1\<rparr>)
   \<and> signals_sent ((arriving ''not json'' [])\<lparr>body_loads := 1\<rparr>) = []
   \<and> \<not> challenged view_with_secret (arriving [CHR 0xFF] [(''HTTP_AUTHORIZATION'', ''Basic c25zOnMzY3JldA=='')])
   \<and> post esp_to_anymail_events example_runtime view_with_secret
        (arriving [CHR 0xFF] [(''HTTP_AUTHORIZATION'', ''Basic c25zOnMzY3JldA=='')])
     = (Inl (AnymailWebhookValidationFailure
               (''Malformed SNS message body b'' @ quoted [CHR 0x5C, CHR ''x'', CHR ''f'', CHR ''f''])),
        arriving [CHR 0xFF] [(''HTTP_AUTHORIZATION'', ''Basic c25zOnMzY3JldA=='')])
   \<and> challenged view_with_secret (arriving ''not json'' [])
   \<and> post esp_to_anymail_events example_runtime view_with_secret (arriving ''not json'' [])
     = (Inr challenge, arriving ''not json'' [])"
proof -
  have fresh: "sns_message_attr (req (arriving b h)) = None" for b h
    by (simp add: arriving_def)
  note m = parse_sns_message_malformed [OF fresh, where rt = example_runtime
      and ?e2a = esp_to_anymail_events]
  have b: "body (req (arriving b h)) = b" "encoding (req (arriving b h)) = None"
    "signals_sent (arriving b h) = []" "body_loads (arriving b h) = 0" for b h
    by (simp_all add: arriving_def)
  have d1: "bytes_decode example_runtime ''not json'' ''utf-8'' = Inr ''not json''"
    and l1: "json_loads example_runtime ''not json'' = Inl JSONDecodeError"
    and r1: "repr_bytes example_runtime ''not json'' = ''b'' @ quoted ''not json''"
    and d2: "bytes_decode example_runtime [CHR 0xFF] ''utf-8'' = Inl UnicodeDecodeError"
    and r2: "repr_bytes example_runtime [CHR 0xFF] = ''b'' @ quoted [CHR 0x5C, CHR ''x'', CHR ''f'', CHR ''f'']"
    and d3: "bytes_decode example_runtime deep_text ''utf-8'' = Inr deep_text"
    by code_simp+
  have c1: "\<not> challenged view_without_secret (arriving ''not json'' [])"
    and c2: "\<not> challenged view_with_secret
                 (arriving [CHR 0xFF] [(''HTTP_AUTHORIZATION'', ''Basic c25zOnMzY3JldA=='')])"
    and c3: "challenged view_with_secret (arriving ''not json'' [])"
    by code_simp+
  have 1: "parse_sns_message example_runtime (arriving ''not json'' [])
     = (Inl (AnymailWebhookValidationFailure (''Malformed SNS message body b'' @ quoted ''not json'')),
        (arriving ''not json'' [])\<lparr>body_loads := 1\<rparr>)"
    using m [of "''not json''" "[]"] d1 l1 r1 by (simp add: b)
  have 2: "parse_sns_message example_runtime (arriving [CHR 0xFF] h)
     = (Inl (AnymailWebhookValidationFailure
               (''Malformed SNS message body b'' @ quoted [CHR 0x5C, CHR ''x'', CHR ''f'', CHR ''f''])),
        arriving [CHR 0xFF] h)" for h
    using m [of "[CHR 0xFF]" h] d2 r2 by (simp add: b)
  have 3: "parse_sns_message example_runtime (arriving deep_text [])
     = (Inl RecursionError, (arriving deep_text [])\<lparr>body_loads := 1\<rparr>)"
    using m [of deep_text "[]"] d3 json_loads_deep_text by (simp add: b)
  have 4: "post esp_to_anymail_events example_runtime view_without_secret (arriving ''not json'' [])
     = (Inl (AnymailWebhookValidationFailure (''Malformed SNS message body b'' @ quoted ''not json'')),
        (arriving ''not json'' [])\<lparr>body_loads := 1\<rparr>)
     \<and> signals_sent ((arriving ''not json'' [])\<lparr>body_loads := 1\<rparr>) = []"
    using m [of "''not json''" "[]" view_without_secret] 1 c1 by (simp add: b)
  have 5: "post esp_to_anymail_events example_runtime view_with_secret
        (arriving [CHR 0xFF] [(''HTTP_AUTHORIZATION'', ''Basic c25zOnMzY3JldA=='')])
     = (Inl (AnymailWebhookValidationFailure
               (''Malformed SNS message body b'' @ quoted [CHR 0x5C, CHR ''x'', CHR ''f'', CHR ''f''])),
        arriving [CHR 0xFF] [(''HTTP_AUTHORIZATION'', ''Basic c25zOnMzY3JldA=='')])"
    using m [of "[CHR 0xFF]" "[(''HTTP_AUTHORIZATION'', ''Basic c25zOnMzY3JldA=='')]" view_with_secret]
      2 [of "[(''HTTP_AUTHORIZATION'', ''Basic c25zOnMzY3JldA=='')]"] c2
    by simp
  have 6: "post esp_to_anymail_events example_runtime view_with_secret (arriving ''not json'' [])
     = (Inr challenge, arriving ''not json'' [])"
    using m [of "''not json''" "[]" view_with_secret] 1 c3 by simp
  show ?thesis
    using 1 2 [of "[]"] 3 4 5 6 c1 c2 c3 by simp
qed

text \<open>
  Claim C9. Once \<^verbatim>\<open>_parse_sns_message\<close> has decoded the body, a second call returns the
  same envelope and changes nothing, whatever \<^verbatim>\<open>json.loads\<close> and \<^verbatim>\<open>bytes.decode\<close> would
  answer then: the envelope comes from the request. In one run of \<^verbatim>\<open>post\<close>, the validator
  and the event parser together call \<^verbatim>\<open>json.loads\<close> on the body at most once and send
  at most one GET; after a validation that passed, \<^verbatim>\<open>parse_events\<close> does not call it
  again.
\<close>

theorem parse_sns_message_memoized:
  "(\<forall>m w1. parse_sns_message rt w = (Inr m, w1) \<longrightarrow> parse_sns_message rt' w1 = (Inr m, w1))
   \<and> (\<forall>u w1. validate_request rt w = (Inr u, w1) \<longrightarrow>
         body_loads (snd (parse_events e2a rt self w1)) = body_loads w1)
   \<and> body_loads (snd (post e2a rt self w)) \<le> Suc (body_loads w)
   \<and> length (http_gets (snd (post e2a rt self w))) \<le> Suc (length (http_gets w))"
proof -
  have "parse_sns_message rt' w1 = (Inr m, w1)" if "parse_sns_message rt w = (Inr m, w1)" for m w1
    using parse_sns_message_caches [OF that] by (rule parse_sns_message_cached)
  moreover have "body_loads (snd (parse_events e2a rt self w1)) = body_loads w1"
    if v: "validate_request rt w = (Inr u, w1)" for u w1
  proof -
    obtain kvs where "parse_sns_message rt w = (Inr (JObject kvs), w1)"
      using validate_request_Inr [OF v] by auto
    then have cached: "sns_message_attr (req w1) = Some (JObject kvs)"
      by (rule parse_sns_message_caches)
    obtain r w2 where e: "parse_events e2a rt self w1 = (r, w2)"
      by (cases "parse_events e2a rt self w1")
    show ?thesis
      using parse_events_frame [OF cached e] e by simp
  qed
  moreover have "body_loads (snd (post e2a rt self w)) \<le> Suc (body_loads w)
    \<and> length (http_gets (snd (post e2a rt self w))) \<le> Suc (length (http_gets w))"
    using base_post_frame [of e2a rt self w] by (simp add: post_def)
  ultimately show ?thesis by blast
qed

theorem parse_sns_message_memoized_witness:
  "parse_sns_message example_runtime
       (arriving (envelope_body ''Notification'' ''m1'') (sns_headers ''Notification'' ''m1''))
     = (Inr (envelope ''Notification'' ''m1''),
        decoded (arriving (envelope_body ''Notification'' ''m1'') (sns_headers ''Notification'' ''m1''))
          (envelope ''Notification'' ''m1''))
   \<and> parse_sns_message deaf_runtime
       (decoded (arriving (envelope_body ''Notification'' ''m1'') (sns_headers ''Notification'' ''m1''))
          (envelope ''Notification'' ''m1''))
     = (Inr (envelope ''Notification'' ''m1''),
        decoded (arriving (envelope_body ''Notification'' ''m1'') (sns_headers ''Notification'' ''m1''))
          (envelope ''Notification'' ''m1''))
   \<and> validate_request example_runtime
       (arriving (envelope_body ''Notification'' ''m1'') (sns_headers ''Notification'' ''m1''))
     = (Inr (),
        decoded (arriving (envelope_body ''Notification'' ''m1'') (sns_headers ''Notification'' ''m1''))
          (envelope ''Notification'' ''m1''))
   \<and> body_loads (snd (parse_events esp_to_anymail_events example_runtime view_with_secret
        (decoded (arriving (envelope_body ''Notification'' ''m1'') (sns_headers ''Notification'' ''m1''))
          (envelope ''Notification'' ''m1'')))) = 1"
proof -
  let ?w = "arriving (envelope_body ''Notification'' ''m1'') (sns_headers ''Notification'' ''m1'')"
  let ?w1 = "decoded ?w (envelope ''Notification'' ''m1'')"
  have d: "parse_sns_message example_runtime ?w = (Inr (envelope ''Notification'' ''m1''), ?w1)"
    by code_simp
  have v: "validate_request example_runtime ?w = (Inr (), ?w1)"
    by code_simp
  have n: "body_loads ?w1 = 1"
    by (simp add: decoded_def arriving_def)
  note memo = parse_sns_message_memoized [of example_runtime ?w deaf_runtime esp_to_anymail_events
      view_with_secret]
  have "parse_sns_message deaf_runtime ?w1 = (Inr (envelope ''Notification'' ''m1''), ?w1)"
    using memo d by blast
  moreover have "body_loads (snd (parse_events esp_to_anymail_events example_runtime
      view_with_secret ?w1)) = 1"
    using memo v n by simp
  ultimately show ?thesis
    using d v by simp
qed

section \<open>The envelope validator\<close>

text \<open>
  Claim C2 asks that \<^verbatim>\<open>validate_request\<close> raise a validation failure exactly when one of
  its three rules fails. The code does not at a body that is JSON but not an object: the
  body \<^verbatim>\<open>[1]\<close> declares no type, so that the type of the header, Notification, differs
  from it; the decoder returns the list, and line 41 calls \<^verbatim>\<open>get\<close> on it, which raises
  \<^verbatim>\<open>AttributeError\<close>. The validator ends with that exception and not with a validation
  failure, and so does \<^verbatim>\<open>post\<close>. On the body \<^verbatim>\<open>not json\<close>, which declares no type either,
  the same request ends with a validation failure, that of the decoder.
\<close>

theorem validate_request_failing_input:
  "parse_sns_message example_runtime (arriving ''[1]'' (sns_headers ''Notification'' ''m1''))
     = (Inr (JArray [JInt 1]),
        decoded (arriving ''[1]'' (sns_headers ''Notification'' ''m1'')) (JArray [JInt 1]))
   \<and> validate_request example_runtime (arriving ''[1]'' (sns_headers ''Notification'' ''m1''))
     = (Inl AttributeError,
        decoded (arriving ''[1]'' (sns_headers ''Notification'' ''m1'')) (JArray [JInt 1]))
   \<and> raises_validation_failure
        (fst (validate_request example_runtime (arriving ''[1]'' (sns_headers ''Notification'' ''m1''))))
     = False
   \<and> post esp_to_anymail_events example_runtime view_without_secret
        (arriving ''[1]'' (sns_headers ''Notification'' ''m1''))
     = (Inl AttributeError,
        decoded (arriving ''[1]'' (sns_headers ''Notification'' ''m1'')) (JArray [JInt 1]))
   \<and> validate_request example_runtime (arriving ''not json'' (sns_headers ''Notification'' ''m1''))
     = (Inl (AnymailWebhookValidationFailure (''Malformed SNS message body b'' @ quoted ''not json'')),
        (arriving ''not json'' (sns_headers ''Notification'' ''m1''))\<lparr>body_loads := 1\<rparr>)"
  by code_simp

text \<open>
  On a request whose body decodes to an object, the code follows the three rules:
  \<^verbatim>\<open>validate_request\<close> raises a validation failure if and only if the type in the header
  differs from the type in the body, or the type is not one of Notification,
  SubscriptionConfirmation and UnsubscribeConfirmation, or the message id in the header
  differs from the one in the body (a header or member that is absent counts as
  \<^verbatim>\<open><<missing>>\<close>). The rules are tested in that order and the first that fails decides
  the message. The check leaves the state as the decoder left it: nothing is fetched or
  sent, and the request differs only in the cached envelope. When it fails, the base
  class's \<^verbatim>\<open>post\<close> ends with the same exception and no event is handed to the signal.
\<close>

lemma validate_request_rules:
  fixes kvs :: "(string \<times> json) list"
  assumes decode: "parse_sns_message rt w = (Inr (JObject kvs), w')"
  defines "header_type \<equiv> (case map_of (META (req w)) ''HTTP_X_AMZ_SNS_MESSAGE_TYPE'' of
                             Some h \<Rightarrow> h | None \<Rightarrow> ''<<missing>>'')"
      and "body_type \<equiv> (case map_of kvs ''Type'' of Some v \<Rightarrow> v | None \<Rightarrow> JString ''<<missing>>'')"
      and "header_id \<equiv> (case map_of (META (req w)) ''HTTP_X_AMZ_SNS_MESSAGE_ID'' of
                             Some h \<Rightarrow> h | None \<Rightarrow> ''<<missing>>'')"
      and "body_id \<equiv> (case map_of kvs ''MessageId'' of Some v \<Rightarrow> v | None \<Rightarrow> JString ''<<missing>>'')"
  shows
    \<open>(raises_validation_failure (fst (validate_request rt w)) \<longleftrightarrow>
        JString header_type \<noteq> body_type
        \<or> header_type \<notin> {''Notification'', ''SubscriptionConfirmation'', ''UnsubscribeConfirmation''}
        \<or> JString header_id \<noteq> body_id)
     \<and> fst (validate_request rt w) =
         (if JString header_type \<noteq> body_type then
            Inl (AnymailWebhookValidationFailure
                   (''SNS header "x-amz-sns-message-type: '' @ header_type
                      @ ''" doesn't match body "Type": "'' @ str rt body_type @ ''"''))
          else if header_type \<notin> {''Notification'', ''SubscriptionConfirmation'',
                                    ''UnsubscribeConfirmation''} then
            Inl (AnymailWebhookValidationFailure
                   (''Unknown SNS message type '' @ quoted header_type))
          else if JString header_id \<noteq> body_id then
            Inl (AnymailWebhookValidationFailure
                   (''SNS header "x-amz-sns-message-id: '' @ header_id
                      @ ''" doesn't match body "MessageId": "'' @ str rt body_id @ ''"''))
          else Inr ())
     \<and> snd (validate_request rt w) = w'
     \<and> http_gets w' = http_gets w \<and> signals_sent w' = signals_sent w
     \<and> req w' = (req w)\<lparr>sns_message_attr := Some (JObject kvs)\<rparr>
     \<and> (\<forall>err. fst (validate_request rt w) = Inl err \<longrightarrow>
           base_post e2a rt self w = (Inl err, w')
           \<and> fst (post e2a rt self w) \<noteq> Inr \<lparr>status = 200, headers = []\<rparr>
           \<and> signals_sent (snd (post e2a rt self w)) = signals_sent w)\<close>
  using parse_sns_message_frame [OF decode] parse_sns_message_request [OF decode]
  unfolding header_type_def body_type_def header_id_def body_id_def
  by (simp add: validate_request_decoded [OF decode] Let_def base_post_def post_def)

lemma validate_request_rules_examples:
  \<open>parse_sns_message example_runtime
       (arriving (envelope_body ''SubscriptionConfirmation'' ''m1'') (sns_headers ''Notification'' ''m1''))
     = (Inr (envelope ''SubscriptionConfirmation'' ''m1''),
        decoded (arriving (envelope_body ''SubscriptionConfirmation'' ''m1'')
                   (sns_headers ''Notification'' ''m1''))
          (envelope ''SubscriptionConfirmation'' ''m1''))
   \<and> validate_request example_runtime
       (arriving (envelope_body ''SubscriptionConfirmation'' ''m1'') (sns_headers ''Notification'' ''m1''))
     = (Inl (AnymailWebhookValidationFailure
          (''SNS header "x-amz-sns-message-type: Notification" doesn't match body ''
           @ ''"Type": "SubscriptionConfirmation"'')),
        decoded (arriving (envelope_body ''SubscriptionConfirmation'' ''m1'')
                   (sns_headers ''Notification'' ''m1''))
          (envelope ''SubscriptionConfirmation'' ''m1''))
   \<and> signals_sent (snd (post esp_to_anymail_events example_runtime view_without_secret
       (arriving (envelope_body ''SubscriptionConfirmation'' ''m1'') (sns_headers ''Notification'' ''m1''))))
     = []
   \<and> fst (validate_request example_runtime
       (arriving (envelope_body ''Subscribe'' ''m1'') (sns_headers ''Subscribe'' ''m1'')))
     = Inl (AnymailWebhookValidationFailure (''Unknown SNS message type '' @ quoted ''Subscribe''))
   \<and> fst (validate_request example_runtime
       (arriving (envelope_body ''Notification'' ''m2'') (sns_headers ''Notification'' ''m1'')))
     = Inl (AnymailWebhookValidationFailure
          ''SNS header "x-amz-sns-message-id: m1" doesn't match body "MessageId": "m2"'')
   \<and> validate_request example_runtime
       (arriving (envelope_body ''Notification'' ''m1'') (sns_headers ''Notification'' ''m1''))
     = (Inr (),
        decoded (arriving (envelope_body ''Notification'' ''m1'') (sns_headers ''Notification'' ''m1''))
          (envelope ''Notification'' ''m1''))\<close>
proof -
  have d1: "parse_sns_message example_runtime
       (arriving (envelope_body ''SubscriptionConfirmation'' ''m1'') (sns_headers ''Notification'' ''m1''))
     = (Inr (JObject [(''Type'', JString ''SubscriptionConfirmation''), (''MessageId'', JString ''m1'')]),
        decoded (arriving (envelope_body ''SubscriptionConfirmation'' ''m1'')
                   (sns_headers ''Notification'' ''m1''))
          (envelope ''SubscriptionConfirmation'' ''m1''))"
    by code_simp
  have d2: "parse_sns_message example_runtime
       (arriving (envelope_body ''Subscribe'' ''m1'') (sns_headers ''Subscribe'' ''m1''))
     = (Inr (JObject [(''Type'', JString ''Subscribe''), (''MessageId'', JString ''m1'')]),
        decoded (arriving (envelope_body ''Subscribe'' ''m1'') (sns_headers ''Subscribe'' ''m1''))
          (envelope ''Subscribe'' ''m1''))"
    by code_simp
  have d3: "parse_sns_message example_runtime
       (arriving (envelope_body ''Notification'' ''m2'') (sns_headers ''Notification'' ''m1''))
     = (Inr (JObject [(''Type'', JString ''Notification''), (''MessageId'', JString ''m2'')]),
        decoded (arriving (envelope_body ''Notification'' ''m2'') (sns_headers ''Notification'' ''m1''))
          (envelope ''Notification'' ''m2''))"
    by code_simp
  have d4: "parse_sns_message example_runtime
       (arriving (envelope_body ''Notification'' ''m1'') (sns_headers ''Notification'' ''m1''))
     = (Inr (JObject [(''Type'', JString ''Notification''), (''MessageId'', JString ''m1'')]),
        decoded (arriving (envelope_body ''Notification'' ''m1'') (sns_headers ''Notification'' ''m1''))
          (envelope ''Notification'' ''m1''))"
    by code_simp
  have 1: \<open>validate_request example_runtime
       (arriving (envelope_body ''SubscriptionConfirmation'' ''m1'') (sns_headers ''Notification'' ''m1''))
     = (Inl (AnymailWebhookValidationFailure
          (''SNS header "x-amz-sns-message-type: Notification" doesn't match body ''
           @ ''"Type": "SubscriptionConfirmation"'')),
        decoded (arriving (envelope_body ''SubscriptionConfirmation'' ''m1'')
                   (sns_headers ''Notification'' ''m1''))
          (envelope ''SubscriptionConfirmation'' ''m1''))\<close>
    and 2: \<open>signals_sent (snd (post esp_to_anymail_events example_runtime view_without_secret
       (arriving (envelope_body ''SubscriptionConfirmation'' ''m1'') (sns_headers ''Notification'' ''m1''))))
     = []\<close>
    using validate_request_rules [OF d1, of esp_to_anymail_events view_without_secret]
    by (simp_all add: arriving_def sns_headers_def str_def prod_eq_iff)
  have 3: \<open>fst (validate_request example_runtime
       (arriving (envelope_body ''Subscribe'' ''m1'') (sns_headers ''Subscribe'' ''m1'')))
     = Inl (AnymailWebhookValidationFailure (''Unknown SNS message type '' @ quoted ''Subscribe''))\<close>
    using validate_request_rules [OF d2, of esp_to_anymail_events view_without_secret]
    by (simp add: arriving_def sns_headers_def str_def)
  have 4: \<open>fst (validate_request example_runtime
       (arriving (envelope_body ''Notification'' ''m2'') (sns_headers ''Notification'' ''m1'')))
     = Inl (AnymailWebhookValidationFailure
          ''SNS header "x-amz-sns-message-id: m1" doesn't match body "MessageId": "m2"'')\<close>
    using validate_request_rules [OF d3, of esp_to_anymail_events view_without_secret]
    by (simp add: arriving_def sns_headers_def str_def)
  have 5: \<open>validate_request example_runtime
       (arriving (envelope_body ''Notification'' ''m1'') (sns_headers ''Notification'' ''m1''))
     = (Inr (),
        decoded (arriving (envelope_body ''Notification'' ''m1'') (sns_headers ''Notification'' ''m1''))
          (envelope ''Notification'' ''m1''))\<close>
    using validate_request_rules [OF d4, of esp_to_anymail_events view_without_secret]
    by (simp add: arriving_def sns_headers_def str_def prod_eq_iff)
  show ?thesis
    using d1 1 2 3 4 5 by (simp add: envelope_def)
qed

section \<open>The handshake handler\<close>

text \<open>
  Claim C1. \<^verbatim>\<open>auto_confirm_sns_subscription\<close> on a SubscriptionConfirmation envelope, its
  three cases in the order the code tests them. With automatic confirmation switched
  off it returns and changes nothing. Otherwise, without a shared secret it raises the
  validation failure whose message carries the topic and the token, for every runtime
  (so also when the URL would answer) and with no request sent. Otherwise, with the
  confirmation URL in the envelope, it sends one GET to that URL and no other; when the
  response is not \<^verbatim>\<open>ok\<close> it raises the validation failure whose message carries the
  status code and the response's text.
\<close>

theorem auto_confirm_sns_subscription_cases:
  fixes kvs :: "(string \<times> json) list"
  defines "topic_arn \<equiv> (case map_of kvs ''TopicArn'' of Some v \<Rightarrow> v | None \<Rightarrow> JNull)"
      and "token \<equiv> (case map_of kvs ''Token'' of Some v \<Rightarrow> v | None \<Rightarrow> JNull)"
  shows
    "(\<not> auto_confirm_enabled self \<longrightarrow>
        auto_confirm_sns_subscription rt self (JObject kvs) w = (Inr (), w))
     \<and> (auto_confirm_enabled self \<and> basic_auth self = [] \<longrightarrow>
        auto_confirm_sns_subscription rt self (JObject kvs) w =
          (Inl (AnymailWebhookValidationFailure
             (''Anymail received an unexpected SubscriptionConfirmation request for Amazon SNS topic ''
              @ quoted (str rt topic_arn)
              @ ''. (Anymail can automatically confirm SNS subscriptions if you set a ''
              @ ''WEBHOOK_SECRET and use that in your SNS notification url. Or you can manually confirm ''
              @ ''this subscription in the SNS dashboard with token ''
              @ quoted (str rt token) @ ''.)'')), w))
     \<and> (auto_confirm_enabled self \<and> basic_auth self \<noteq> []
          \<and> map_of kvs ''SubscribeURL'' = Some url \<longrightarrow>
        snd (auto_confirm_sns_subscription rt self (JObject kvs) w)
          = w\<lparr>http_gets := http_gets w @ [url]\<rparr>
        \<and> fst (auto_confirm_sns_subscription rt self (JObject kvs) w) =
            (case requests_get rt url of
               Inl err \<Rightarrow> Inl err
             | Inr response \<Rightarrow>
                 if ok response then Inr ()
                 else Inl (AnymailWebhookValidationFailure
                        (''Anymail received a '' @ str rt (JInt (status_code response))
                         @ '' error trying to automatically confirm a subscription ''
                         @ ''to Amazon SNS topic '' @ quoted (str rt topic_arn)
                         @ ''. The response was '' @ quoted (text response) @ ''.''))))"
  unfolding topic_arn_def token_def
  by (simp add: auto_confirm_sns_subscription_def split: sum.split)

theorem auto_confirm_sns_subscription_cases_witness:
  "auto_confirm_sns_subscription example_runtime view_manual (JObject subscription) (arriving [] [])
     = (Inr (), arriving [] [])
   \<and> auto_confirm_sns_subscription example_runtime view_without_secret (JObject subscription)
       (arriving [] [])
     = (Inl (AnymailWebhookValidationFailure
          (''Anymail received an unexpected SubscriptionConfirmation request for Amazon SNS topic ''
           @ quoted ''arn:aws:sns:us-west-2:123456789012:MyTopic''
           @ ''. (Anymail can automatically confirm SNS subscriptions if you set a ''
           @ ''WEBHOOK_SECRET and use that in your SNS notification url. Or you can manually confirm ''
           @ ''this subscription in the SNS dashboard with token ''
           @ quoted ''2336412f37fb'' @ ''.)'')), arriving [] [])
   \<and> auto_confirm_sns_subscription example_runtime view_with_secret (JObject subscription)
       (arriving [] [])
     = (Inr (), (arriving [] [])\<lparr>http_gets :=
          [JString ''https://sns.us-east-1.amazonaws.com/?Action=ConfirmSubscription&Token=2336412f37fb'']\<rparr>)
   \<and> auto_confirm_sns_subscription example_runtime view_with_secret (JObject expired_subscription)
       (arriving [] [])
     = (Inl (AnymailWebhookValidationFailure
          (''Anymail received a 403 error trying to automatically confirm a subscription ''
           @ ''to Amazon SNS topic '' @ quoted ''arn:aws:sns:us-west-2:123456789012:MyTopic''
           @ ''. The response was '' @ quoted ''Forbidden'' @ ''.'')),
        (arriving [] [])\<lparr>http_gets :=
          [JString ''https://sns.us-east-1.amazonaws.com/?Action=ConfirmSubscription&Token=expired'']\<rparr>)"
proof -
  have off: "\<not> auto_confirm_enabled view_manual"
    by (simp add: view_manual_def)
  have nosecret: "auto_confirm_enabled view_without_secret \<and> basic_auth view_without_secret = []"
    by (simp add: view_without_secret_def)
  have secret: "auto_confirm_enabled view_with_secret \<and> basic_auth view_with_secret \<noteq> []"
    by (simp add: view_with_secret_def)
  have url1: "map_of subscription ''SubscribeURL'' = Some (JString
      ''https://sns.us-east-1.amazonaws.com/?Action=ConfirmSubscription&Token=2336412f37fb'')"
    by (simp add: subscription_def)
  have url2: "map_of expired_subscription ''SubscribeURL'' = Some (JString
      ''https://sns.us-east-1.amazonaws.com/?Action=ConfirmSubscription&Token=expired'')"
    by (simp add: expired_subscription_def)
  note c = auto_confirm_sns_subscription_cases [where rt = example_runtime and w = "arriving [] []"]
  have 1: "auto_confirm_sns_subscription example_runtime view_manual (JObject subscription)
             (arriving [] []) = (Inr (), arriving [] [])"
    using c [of view_manual subscription] off by simp
  have 2: "auto_confirm_sns_subscription example_runtime view_without_secret (JObject subscription)
             (arriving [] []) =
           (Inl (AnymailWebhookValidationFailure
          (''Anymail received an unexpected SubscriptionConfirmation request for Amazon SNS topic ''
           @ quoted ''arn:aws:sns:us-west-2:123456789012:MyTopic''
           @ ''. (Anymail can automatically confirm SNS subscriptions if you set a ''
           @ ''WEBHOOK_SECRET and use that in your SNS notification url. Or you can manually confirm ''
           @ ''this subscription in the SNS dashboard with token ''
           @ quoted ''2336412f37fb'' @ ''.)'')), arriving [] [])"
    using c [of view_without_secret subscription] nosecret
    by (simp add: subscription_def str_def)
  have r1: "requests_get example_runtime (JString
      ''https://sns.us-east-1.amazonaws.com/?Action=ConfirmSubscription&Token=2336412f37fb'')
      = Inr \<lparr>ok = True, status_code = 200, text = ''<ConfirmSubscriptionResponse/>''\<rparr>"
    by code_simp
  have r2: "requests_get example_runtime (JString
      ''https://sns.us-east-1.amazonaws.com/?Action=ConfirmSubscription&Token=expired'')
      = Inr \<lparr>ok = False, status_code = 403, text = ''Forbidden''\<rparr>"
    by code_simp
  have code: "str example_runtime (JInt 403) = ''403''"
    by code_simp
  have 3: "auto_confirm_sns_subscription example_runtime view_with_secret (JObject subscription)
             (arriving [] []) =
           (Inr (), (arriving [] [])\<lparr>http_gets :=
          [JString ''https://sns.us-east-1.amazonaws.com/?Action=ConfirmSubscription&Token=2336412f37fb'']\<rparr>)"
    using c [of view_with_secret subscription "JString
      ''https://sns.us-east-1.amazonaws.com/?Action=ConfirmSubscription&Token=2336412f37fb''"]
      secret url1
    by (simp add: r1 prod_eq_iff arriving_def)
  have 4: "auto_confirm_sns_subscription example_runtime view_with_secret (JObject expired_subscription)
             (arriving [] []) =
           (Inl (AnymailWebhookValidationFailure
          (''Anymail received a 403 error trying to automatically confirm a subscription ''
           @ ''to Amazon SNS topic '' @ quoted ''arn:aws:sns:us-west-2:123456789012:MyTopic''
           @ ''. The response was '' @ quoted ''Forbidden'' @ ''.'')),
        (arriving [] [])\<lparr>http_gets :=
          [JString ''https://sns.us-east-1.amazonaws.com/?Action=ConfirmSubscription&Token=expired'']\<rparr>)"
    using c [of view_with_secret expired_subscription "JString
      ''https://sns.us-east-1.amazonaws.com/?Action=ConfirmSubscription&Token=expired''"]
      secret url2
    by (simp add: r2 code prod_eq_iff arriving_def) (simp add: expired_subscription_def str_def)
  show ?thesis
    using 1 2 3 4 by simp
qed

section \<open>Event parsing\<close>

text \<open>
  Claim C6, as the specification states it, does not hold: on a Notification envelope
  whose Message does not decode, the code neither accepts the request nor raises the
  validation failure when \<^verbatim>\<open>json.loads\<close> fails with an exception that line 82 does not
  catch. On a Message of a thousand opening brackets \<^verbatim>\<open>json.loads\<close> raises a
  \<^verbatim>\<open>RecursionError\<close>, which is neither a \<^verbatim>\<open>TypeError\<close> nor a \<^verbatim>\<open>ValueError\<close>; the Message is
  not the acknowledgment, and \<^verbatim>\<open>parse_events\<close> ends with the \<^verbatim>\<open>RecursionError\<close>, not with a
  validation failure.
\<close>

theorem parse_events_counterexample:
  "json_loads_value example_runtime (JString deep_text) = Inl RecursionError
   \<and> JString deep_text \<noteq> JString ''Successfully validated SNS topic for Amazon SES event publishing.''
   \<and> parse_events esp_to_anymail_events example_runtime view_with_secret
       (arriving (notification_body ''m1'' deep_text) (sns_headers ''Notification'' ''m1''))
     = (Inl RecursionError,
        decoded (arriving (notification_body ''m1'' deep_text) (sns_headers ''Notification'' ''m1''))
          (notification ''m1'' deep_text))
   \<and> \<not> raises_validation_failure (fst (parse_events esp_to_anymail_events example_runtime view_with_secret
       (arriving (notification_body ''m1'' deep_text) (sns_headers ''Notification'' ''m1''))))"
proof -
  let ?w = "arriving (notification_body ''m1'' deep_text) (sns_headers ''Notification'' ''m1'')"
  have d: "parse_sns_message example_runtime ?w
             = (Inr (notification ''m1'' deep_text), decoded ?w (notification ''m1'' deep_text))"
    by code_simp
  have l: "json_loads_value example_runtime (JString deep_text) = Inl RecursionError"
    by (rule json_loads_value_deep_text)
  have a: "deep_text \<noteq> ''Successfully validated SNS topic for Amazon SES event publishing.''"
    by (rule deep_text_not_acknowledgment)
  have p: "parse_events esp_to_anymail_events example_runtime view_with_secret ?w
             = (Inl RecursionError, decoded ?w (notification ''m1'' deep_text))"
    by (simp add: parse_events_def d notification_def l a)
  show ?thesis
    using l a p by simp
qed

text \<open>
  Claim C6, amended. On a Notification envelope whose Message makes \<^verbatim>\<open>json.loads\<close> raise
  a \<^verbatim>\<open>ValueError\<close> (the Message is not JSON) or a \<^verbatim>\<open>TypeError\<close> (the Message is absent or
  not a string), \<^verbatim>\<open>parse_events\<close> returns no event, raises nothing and leaves the state as
  it is if and only if the Message is exactly the acknowledgment that Amazon SES sends
  after the confirmation of a topic; on every other such Message it raises the
  validation failure "Unparsable SNS Message" with the \<^verbatim>\<open>repr\<close> of the Message. When
  \<^verbatim>\<open>json.loads\<close> raises an exception of another kind, \<^verbatim>\<open>parse_events\<close> does not catch it: it
  ends with that exception, whatever the Message, and returns no event. So the
  processing is benign exactly when the exception is one of the two caught kinds and
  the Message is the acknowledgment.
\<close>

theorem parse_events_unparsable_message:
  fixes kvs :: "(string \<times> json) list"
  defines "message_string \<equiv> (case map_of kvs ''Message'' of Some m \<Rightarrow> m | None \<Rightarrow> JNull)"
  assumes decode: "parse_sns_message rt w = (Inr (JObject kvs), w')"
    and notification: "map_of kvs ''Type'' = Some (JString ''Notification'')"
    and undecodable: "json_loads_value rt message_string = Inl err"
  shows
    "parse_events e2a rt self w =
       (if err = TypeError \<or> isinstance_ValueError err then
          (if message_string = JString ''Successfully validated SNS topic for Amazon SES event publishing.''
           then (Inr [], w')
           else (Inl (AnymailWebhookValidationFailure
                        (''Unparsable SNS Message '' @ repr rt message_string)), w'))
        else (Inl err, w'))
     \<and> (fst (parse_events e2a rt self w) = Inr [] \<longleftrightarrow>
          (err = TypeError \<or> isinstance_ValueError err)
          \<and> message_string = JString ''Successfully validated SNS topic for Amazon SES event publishing.'')"
  using undecodable notification unfolding message_string_def
  by (auto simp: parse_events_def decode)

theorem parse_events_unparsable_message_witness:
  "parse_events esp_to_anymail_events example_runtime view_with_secret
       (arriving (notification_body ''m1''
            ''Successfully validated SNS topic for Amazon SES event publishing.'')
          (sns_headers ''Notification'' ''m1''))
     = (Inr [],
        decoded (arriving (notification_body ''m1''
              ''Successfully validated SNS topic for Amazon SES event publishing.'')
            (sns_headers ''Notification'' ''m1''))
          (notification ''m1'' ''Successfully validated SNS topic for Amazon SES event publishing.''))
   \<and> parse_events esp_to_anymail_events example_runtime view_with_secret
       (arriving (notification_body ''m1'' ''Successfully validated'') (sns_headers ''Notification'' ''m1''))
     = (Inl (AnymailWebhookValidationFailure
               (''Unparsable SNS Message '' @ quoted ''Successfully validated'')),
        decoded (arriving (notification_body ''m1'' ''Successfully validated'')
            (sns_headers ''Notification'' ''m1''))
          (notification ''m1'' ''Successfully validated''))
   \<and> parse_events esp_to_anymail_events example_runtime view_with_secret
       (decoded (arriving (notification_body ''m1'' deep_text) (sns_headers ''Notification'' ''m1''))
          (notification ''m1'' deep_text))
     = (Inl RecursionError,
        decoded (arriving (notification_body ''m1'' deep_text) (sns_headers ''Notification'' ''m1''))
          (notification ''m1'' deep_text))"
proof -
  have d1: "parse_sns_message example_runtime
       (arriving (notification_body ''m1''
            ''Successfully validated SNS topic for Amazon SES event publishing.'')
          (sns_headers ''Notification'' ''m1''))
     = (Inr (JObject [(''Type'', JString ''Notification''), (''MessageId'', JString ''m1''),
              (''Message'', JString ''Successfully validated SNS topic for Amazon SES event publishing.'')]),
        decoded (arriving (notification_body ''m1''
              ''Successfully validated SNS topic for Amazon SES event publishing.'')
            (sns_headers ''Notification'' ''m1''))
          (notification ''m1'' ''Successfully validated SNS topic for Amazon SES event publishing.''))"
    by code_simp
  have d2: "parse_sns_message example_runtime
       (arriving (notification_body ''m1'' ''Successfully validated'') (sns_headers ''Notification'' ''m1''))
     = (Inr (JObject [(''Type'', JString ''Notification''), (''MessageId'', JString ''m1''),
              (''Message'', JString ''Successfully validated'')]),
        decoded (arriving (notification_body ''m1'' ''Successfully validated'')
            (sns_headers ''Notification'' ''m1''))
          (notification ''m1'' ''Successfully validated''))"
    by code_simp
  have l1: "json_loads_value example_runtime
       (JString ''Successfully validated SNS topic for Amazon SES event publishing.'')
       = Inl JSONDecodeError"
    and l2: "json_loads_value example_runtime (JString ''Successfully validated'') = Inl JSONDecodeError"
    and r2: "repr example_runtime (JString ''Successfully validated'') = quoted ''Successfully validated''"
    by code_simp+
  have 1: "parse_events esp_to_anymail_events example_runtime view_with_secret
       (arriving (notification_body ''m1''
            ''Successfully validated SNS topic for Amazon SES event publishing.'')
          (sns_headers ''Notification'' ''m1''))
     = (Inr [],
        decoded (arriving (notification_body ''m1''
              ''Successfully validated SNS topic for Amazon SES event publishing.'')
            (sns_headers ''Notification'' ''m1''))
          (notification ''m1'' ''Successfully validated SNS topic for Amazon SES event publishing.''))"
    using parse_events_unparsable_message [OF d1, of JSONDecodeError esp_to_anymail_events view_with_secret]
    by (simp add: l1)
  have 2: "parse_events esp_to_anymail_events example_runtime view_with_secret
       (arriving (notification_body ''m1'' ''Successfully validated'') (sns_headers ''Notification'' ''m1''))
     = (Inl (AnymailWebhookValidationFailure
               (''Unparsable SNS Message '' @ quoted ''Successfully validated'')),
        decoded (arriving (notification_body ''m1'' ''Successfully validated'')
            (sns_headers ''Notification'' ''m1''))
          (notification ''m1'' ''Successfully validated''))"
    using parse_events_unparsable_message [OF d2, of JSONDecodeError esp_to_anymail_events view_with_secret]
    by (simp add: l2 r2)
  have d3: "parse_sns_message example_runtime
       (decoded (arriving (notification_body ''m1'' deep_text) (sns_headers ''Notification'' ''m1''))
          (notification ''m1'' deep_text))
     = (Inr (JObject [(''Type'', JString ''Notification''), (''MessageId'', JString ''m1''),
              (''Message'', JString deep_text)]),
        decoded (arriving (notification_body ''m1'' deep_text) (sns_headers ''Notification'' ''m1''))
          (notification ''m1'' deep_text))"
    by (simp add: parse_sns_message_def decoded_def notification_def)
  have l3: "json_loads_value example_runtime (JString deep_text) = Inl RecursionError"
    by (rule json_loads_value_deep_text)
  have 3: "parse_events esp_to_anymail_events example_runtime view_with_secret
       (decoded (arriving (notification_body ''m1'' deep_text) (sns_headers ''Notification'' ''m1''))
          (notification ''m1'' deep_text))
     = (Inl RecursionError,
        decoded (arriving (notification_body ''m1'' deep_text) (sns_headers ''Notification'' ''m1''))
          (notification ''m1'' deep_text))"
    using parse_events_unparsable_message [OF d3, of RecursionError esp_to_anymail_events view_with_secret]
    by (simp add: l3)
  show ?thesis
    using 1 2 3 by simp
qed

text \<open>
  Claim C10. After a validation that passed, on an envelope whose type is neither
  Notification nor SubscriptionConfirmation (it is then UnsubscribeConfirmation, the
  only other type the validator lets through), \<^verbatim>\<open>parse_events\<close> returns the empty list
  of events and leaves the state as it is: nothing is raised, fetched or decoded.
\<close>

theorem parse_events_other_types:
  assumes valid: "validate_request rt w = (Inr u, w')"
    and envelope: "sns_message_attr (req w') = Some (JObject kvs)"
    and other: "map_of kvs ''Type'' \<noteq> Some (JString ''Notification'')"
               "map_of kvs ''Type'' \<noteq> Some (JString ''SubscriptionConfirmation'')"
  shows "parse_events e2a rt self w' = (Inr [], w')
         \<and> map_of kvs ''Type'' = Some (JString ''UnsubscribeConfirmation'')"
proof -
  obtain kvs' where d: "parse_sns_message rt w = (Inr (JObject kvs'), w')"
    and t: "map_of kvs' ''Type'' \<in> {Some (JString ''Notification''),
                 Some (JString ''SubscriptionConfirmation''),
                 Some (JString ''UnsubscribeConfirmation'')}"
    using validate_request_Inr [OF valid] by blast
  have "kvs' = kvs"
    using parse_sns_message_caches [OF d] envelope by simp
  then show ?thesis
    using t other by (simp add: parse_events_cached [OF envelope])
qed

theorem parse_events_other_types_witness:
  "validate_request example_runtime
       (arriving (envelope_body ''UnsubscribeConfirmation'' ''m7'')
          (sns_headers ''UnsubscribeConfirmation'' ''m7''))
     = (Inr (),
        decoded (arriving (envelope_body ''UnsubscribeConfirmation'' ''m7'')
            (sns_headers ''UnsubscribeConfirmation'' ''m7''))
          (envelope ''UnsubscribeConfirmation'' ''m7''))
   \<and> parse_events esp_to_anymail_events example_runtime view_with_secret
       (decoded (arriving (envelope_body ''UnsubscribeConfirmation'' ''m7'')
            (sns_headers ''UnsubscribeConfirmation'' ''m7''))
          (envelope ''UnsubscribeConfirmation'' ''m7''))
     = (Inr [],
        decoded (arriving (envelope_body ''UnsubscribeConfirmation'' ''m7'')
            (sns_headers ''UnsubscribeConfirmation'' ''m7''))
          (envelope ''UnsubscribeConfirmation'' ''m7''))"
proof -
  let ?w = "arriving (envelope_body ''UnsubscribeConfirmation'' ''m7'')
              (sns_headers ''UnsubscribeConfirmation'' ''m7'')"
  let ?kvs = "[(''Type'', JString ''UnsubscribeConfirmation''), (''MessageId'', JString ''m7'')]"
  have v: "validate_request example_runtime ?w = (Inr (), decoded ?w (envelope ''UnsubscribeConfirmation'' ''m7''))"
    by code_simp
  have c: "sns_message_attr (req (decoded ?w (envelope ''UnsubscribeConfirmation'' ''m7''))) = Some (JObject ?kvs)"
    by (simp add: decoded_def envelope_def)
  have "parse_events esp_to_anymail_events example_runtime view_with_secret
          (decoded ?w (envelope ''UnsubscribeConfirmation'' ''m7''))
        = (Inr [], decoded ?w (envelope ''UnsubscribeConfirmation'' ''m7''))"
    using parse_events_other_types [OF v c, of esp_to_anymail_events view_with_secret] by simp
  then show ?thesis
    using v by simp
qed

section \<open>The event normalizer\<close>

text \<open>
  Claim C3. When the part common to all subtypes (lines 137 to 174) has run through on
  a notification of subtype Bounce whose detail, the member \<^verbatim>\<open>bounce\<close> of the event, has
  a bounce type, a bounce subtype and a list \<^verbatim>\<open>bouncedRecipients\<close> of \<open>K\<close> entries with an
  email address each, \<^verbatim>\<open>esp_to_anymail_events\<close> returns \<open>K\<close> events, one per entry and in
  the order of the entries. Each has the event type and the reject reason BOUNCED and
  the description "bounce type: bounce subtype"; its recipient is the entry's email
  address and its \<open>mta_response\<close> the entry's diagnostic code (\<^verbatim>\<open>None\<close> when the entry
  has none).
\<close>

theorem bounce_events:
  assumes common: "common_props rt ses_event sns_message
                     = Inr (common, default_props, JString ''Bounce'', JObject bounce)"
    and bounceType: "map_of bounce ''bounceType'' = Some bounceType"
    and bounceSubType: "map_of bounce ''bounceSubType'' = Some bounceSubType"
    and recipients: "map_of bounce ''bouncedRecipients'' = Some (JArray (map JObject entries))"
    and addresses: "\<forall>entry \<in> set entries. map_of entry ''emailAddress'' \<noteq> None"
  shows
    "dict_get ses_event ''bounce'' (JObject []) = Inr (JObject bounce)
     \<and> esp_to_anymail_events rt ses_event sns_message =
         Inr (map (\<lambda>entry.
                common\<lparr>event_type := EventType_BOUNCED,
                       description := JString (str rt bounceType @ '': '' @ str rt bounceSubType),
                       reject_reason := Some RejectReason_BOUNCED,
                       recipient := the (map_of entry ''emailAddress''),
                       mta_response := (case map_of entry ''diagnosticCode'' of
                                          Some code \<Rightarrow> code | None \<Rightarrow> JNull)\<rparr>)
              entries)
     \<and> (case esp_to_anymail_events rt ses_event sns_message of
          Inl err \<Rightarrow> False
        | Inr events \<Rightarrow>
            length events = length entries
            \<and> (\<forall>i < length entries.
                  event_type (events ! i) = EventType_BOUNCED
                  \<and> reject_reason (events ! i) = Some RejectReason_BOUNCED
                  \<and> description (events ! i)
                      = JString (str rt bounceType @ '': '' @ str rt bounceSubType)
                  \<and> map_of (entries ! i) ''emailAddress'' = Some (recipient (events ! i))
                  \<and> mta_response (events ! i)
                      = (case map_of (entries ! i) ''diagnosticCode'' of
                           Some code \<Rightarrow> code | None \<Rightarrow> JNull)))"
proof -
  have key: "lower (JString ''Bounce'') = Inr ''bounce''"
    by code_simp
  have detail: "dict_get ses_event ''bounce'' (JObject []) = Inr (JObject bounce)"
    using common_props_Inr [OF common] key by auto
  have props: "map_exn (\<lambda>recipient.
               bnd (subscript recipient ''emailAddress'') (\<lambda>a.
               bnd (dict_get recipient ''diagnosticCode'' JNull) (\<lambda>c.
                 Inr \<lparr>rp_recipient = a, rp_mta_response = Some c\<rparr>))) (map JObject entries)
     = Inr (map (\<lambda>entry. \<lparr>rp_recipient = the (map_of entry ''emailAddress''),
                          rp_mta_response = Some (case map_of entry ''diagnosticCode'' of
                                                    Some code \<Rightarrow> code | None \<Rightarrow> JNull)\<rparr>)
              entries)"
    using addresses by (induction entries) auto
  have run: "esp_to_anymail_events rt ses_event sns_message =
         Inr (map (\<lambda>entry.
                common\<lparr>event_type := EventType_BOUNCED,
                       description := JString (str rt bounceType @ '': '' @ str rt bounceSubType),
                       reject_reason := Some RejectReason_BOUNCED,
                       recipient := the (map_of entry ''emailAddress''),
                       mta_response := (case map_of entry ''diagnosticCode'' of
                                          Some code \<Rightarrow> code | None \<Rightarrow> JNull)\<rparr>)
              entries)"
    by (simp add: esp_to_anymail_events_common [OF common] update_for_event_type_def
        format_bounce_def bounceType bounceSubType recipients iterate_def props combine_def
        comp_def)
  have "map_of (entries ! i) ''emailAddress''
          = Some (the (map_of (entries ! i) ''emailAddress''))" if "i < length entries" for i
  proof -
    have "entries ! i \<in> set entries"
      using that by simp
    then have "map_of (entries ! i) ''emailAddress'' \<noteq> None"
      using addresses by blast
    then show ?thesis by auto
  qed
  then show ?thesis
    using detail by (simp add: run)
qed

theorem bounce_events_witness:
  "common_props example_runtime bounce_event
       (timed_notification ''m1'' ''2016-01-27T14:59:38Z'' bounce_message)
     = Inr (bounce_common,
            [\<lparr>rp_recipient = JString ''jane@example.com'', rp_mta_response = None\<rparr>,
             \<lparr>rp_recipient = JString ''mary@example.com'', rp_mta_response = None\<rparr>,
             \<lparr>rp_recipient = JString ''richard@example.com'', rp_mta_response = None\<rparr>],
            JString ''Bounce'', JObject bounce_detail)
   \<and> json_loads example_runtime bounce_message = Inr bounce_event
   \<and> esp_to_anymail_events example_runtime bounce_event
       (timed_notification ''m1'' ''2016-01-27T14:59:38Z'' bounce_message)
     = Inr [bounce_common\<lparr>event_type := EventType_BOUNCED,
                          description := JString ''Permanent: General'',
                          reject_reason := Some RejectReason_BOUNCED,
                          recipient := JString ''jane@example.com'',
                          mta_response := JString ''smtp; 550 5.1.1 user unknown''\<rparr>,
            bounce_common\<lparr>event_type := EventType_BOUNCED,
                          description := JString ''Permanent: General'',
                          reject_reason := Some RejectReason_BOUNCED,
                          recipient := JString ''richard@example.com'',
                          mta_response := JNull\<rparr>]"
proof -
  have c: "common_props example_runtime bounce_event
       (timed_notification ''m1'' ''2016-01-27T14:59:38Z'' bounce_message)
     = Inr (bounce_common,
            [\<lparr>rp_recipient = JString ''jane@example.com'', rp_mta_response = None\<rparr>,
             \<lparr>rp_recipient = JString ''mary@example.com'', rp_mta_response = None\<rparr>,
             \<lparr>rp_recipient = JString ''richard@example.com'', rp_mta_response = None\<rparr>],
            JString ''Bounce'', JObject bounce_detail)"
    by code_simp
  have l: "json_loads example_runtime bounce_message = Inr bounce_event"
    by code_simp
  have t: "map_of bounce_detail ''bounceType'' = Some (JString ''Permanent'')"
    and s: "map_of bounce_detail ''bounceSubType'' = Some (JString ''General'')"
    and r: "map_of bounce_detail ''bouncedRecipients'' = Some (JArray (map JObject bounce_entries))"
    and a: "\<forall>entry \<in> set bounce_entries. map_of entry ''emailAddress'' \<noteq> None"
    by (simp_all add: bounce_detail_def bounce_entries_def)
  show ?thesis
    using bounce_events [OF c t s r a] c l
    by (simp add: bounce_entries_def str_def)
qed

text \<open>
  Claim C4. The subtype of an event is the value of its member \<^verbatim>\<open>eventType\<close>, else of its
  member \<^verbatim>\<open>notificationType\<close>, else the text \<^verbatim>\<open><<type missing>>\<close>. When the part common to
  all subtypes has run through and the subtype is none of the eight the module knows,
  \<^verbatim>\<open>esp_to_anymail_events\<close> returns one event per address of the full recipient list, in
  that order, each of type UNKNOWN with the description "Unknown SES eventType" followed
  by the subtype between apostrophes.
\<close>

theorem unknown_event_type:
  assumes common: "common_props rt (JObject ev) sns_message
                     = Inr (common, default_props, ses_event_type, event_object)"
    and unknown: "ses_event_type \<notin> {JString ''Bounce'', JString ''Complaint'', JString ''Delivery'',
                     JString ''Send'', JString ''Reject'', JString ''Open'', JString ''Click'',
                     JString ''Rendering Failure''}"
  shows
    "ses_event_type =
       (case map_of ev ''eventType'' of
          Some v \<Rightarrow> v
        | None \<Rightarrow> (case map_of ev ''notificationType'' of
                     Some v \<Rightarrow> v
                   | None \<Rightarrow> JString ''<<type missing>>''))
     \<and> (\<exists>subtype addresses.
           ses_event_type = JString subtype
           \<and> all_recipients (JObject ev) = Inr addresses
           \<and> esp_to_anymail_events rt (JObject ev) sns_message =
               Inr (map (\<lambda>address.
                      common\<lparr>event_type := EventType_UNKNOWN,
                             description := JString (''Unknown SES eventType '' @ quoted subtype),
                             recipient := address\<rparr>)
                    addresses))"
proof -
  obtain mail_object dest addresses key where
    mail: "dict_get (JObject ev) ''mail'' (JObject []) = Inr mail_object"
    and dest: "dict_get mail_object ''destination'' (JArray []) = Inr dest"
    and addresses: "iterate dest = Inr addresses"
    and props: "default_props = map (\<lambda>a. \<lparr>rp_recipient = a, rp_mta_response = None\<rparr>) addresses"
    and first: "getfirst (JObject ev) [''eventType'', ''notificationType''] (JString ''<<type missing>>'')
                  = Inr ses_event_type"
    and key: "lower ses_event_type = Inr key"
    using common_props_Inr [OF common] by blast
  obtain subtype where subtype: "ses_event_type = JString subtype"
    using key by (cases ses_event_type) (simp_all add: lower_def)
  have lookup: "ses_event_type =
       (case map_of ev ''eventType'' of
          Some v \<Rightarrow> v
        | None \<Rightarrow> (case map_of ev ''notificationType'' of
                     Some v \<Rightarrow> v
                   | None \<Rightarrow> JString ''<<type missing>>''))"
    using first by (auto split: option.splits)
  have full: "all_recipients (JObject ev) = Inr addresses"
    using mail dest addresses by (simp add: all_recipients_def del: dict_get_JObject)
  have branch: "update_for_event_type rt (JObject ev) ses_event_type event_object common default_props
      = Inr (common\<lparr>event_type := EventType_UNKNOWN,
                    description := JString (''Unknown SES eventType '' @ quoted subtype)\<rparr>,
             default_props)"
    using unknown by (simp add: update_for_event_type_def subtype str_def)
  have "esp_to_anymail_events rt (JObject ev) sns_message =
               Inr (map (\<lambda>address.
                      common\<lparr>event_type := EventType_UNKNOWN,
                             description := JString (''Unknown SES eventType '' @ quoted subtype),
                             recipient := address\<rparr>)
                    addresses)"
    using branch
    by (simp add: esp_to_anymail_events_common [OF common] props combine_def comp_def)
  then show ?thesis
    using lookup subtype full by blast
qed

theorem unknown_event_type_witness:
  "common_props example_runtime subscription_event (notification ''m4'' [])
     = Inr (subscription_common,
            [\<lparr>rp_recipient = JString ''jane@example.com'', rp_mta_response = None\<rparr>,
             \<lparr>rp_recipient = JString ''mary@example.com'', rp_mta_response = None\<rparr>],
            JString ''Subscription'', JObject [])
   \<and> esp_to_anymail_events example_runtime subscription_event (notification ''m4'' [])
     = Inr [subscription_common\<lparr>event_type := EventType_UNKNOWN,
               description := JString (''Unknown SES eventType '' @ quoted ''Subscription''),
               recipient := JString ''jane@example.com''\<rparr>,
            subscription_common\<lparr>event_type := EventType_UNKNOWN,
               description := JString (''Unknown SES eventType '' @ quoted ''Subscription''),
               recipient := JString ''mary@example.com''\<rparr>]
   \<and> map description (projr (esp_to_anymail_events example_runtime (JObject untyped_event)
                                (notification ''m5'' [])))
     = [JString (''Unknown SES eventType '' @ quoted ''<<type missing>>'')]"
proof -
  let ?props = "[\<lparr>rp_recipient = JString ''jane@example.com'', rp_mta_response = None\<rparr>,
                 \<lparr>rp_recipient = JString ''mary@example.com'', rp_mta_response = None\<rparr>]"
  have e: "subscription_event = JObject
      [(''eventType'', JString ''Subscription''),
       (''mail'',
        JObject
         [(''messageId'', JString ''0000013786031775''),
          (''destination'', JArray [JString ''jane@example.com'', JString ''mary@example.com'']),
          (''headers'',
           JArray
            [JObject [(''name'', JString ''X-METADATA''), (''value'', JString ''{order: 12'')]])])]"
    by (simp add: subscription_event_def)
  have c: "common_props example_runtime subscription_event (notification ''m4'' [])
     = Inr (subscription_common, ?props, JString ''Subscription'', JObject [])"
    by code_simp
  have a: "all_recipients subscription_event
             = Inr [JString ''jane@example.com'', JString ''mary@example.com'']"
    by code_simp
  have u: "JString ''Subscription'' \<notin> {JString ''Bounce'', JString ''Complaint'', JString ''Delivery'',
                     JString ''Send'', JString ''Reject'', JString ''Open'', JString ''Click'',
                     JString ''Rendering Failure''}"
    by simp
  have 1: "esp_to_anymail_events example_runtime subscription_event (notification ''m4'' [])
     = Inr [subscription_common\<lparr>event_type := EventType_UNKNOWN,
               description := JString (''Unknown SES eventType '' @ quoted ''Subscription''),
               recipient := JString ''jane@example.com''\<rparr>,
            subscription_common\<lparr>event_type := EventType_UNKNOWN,
               description := JString (''Unknown SES eventType '' @ quoted ''Subscription''),
               recipient := JString ''mary@example.com''\<rparr>]"
    using unknown_event_type [OF c [unfolded e] u] a [unfolded e] by (auto simp: e)
  have c2: "common_props example_runtime (JObject untyped_event) (notification ''m5'' [])
     = Inr (\<lparr>event_type = EventType_UNKNOWN, timestamp = None,
      event_id = JString ''m5'', esp_event = JObject untyped_event, click_url = JNull,
      description = JNull, message_id = JNull,
      metadata = JObject [], mta_response = JNull, recipient = JNull,
      reject_reason = None, tags = [], user_agent = JNull\<rparr>,
      [\<lparr>rp_recipient = JString ''jane@example.com'', rp_mta_response = None\<rparr>],
      JString ''<<type missing>>'', JObject [])"
    by code_simp
  have a2: "all_recipients (JObject untyped_event) = Inr [JString ''jane@example.com'']"
    by code_simp
  have u2: "JString ''<<type missing>>'' \<notin> {JString ''Bounce'', JString ''Complaint'',
                     JString ''Delivery'', JString ''Send'', JString ''Reject'', JString ''Open'',
                     JString ''Click'', JString ''Rendering Failure''}"
    by simp
  have 2: "map description (projr (esp_to_anymail_events example_runtime (JObject untyped_event)
                                (notification ''m5'' [])))
     = [JString (''Unknown SES eventType '' @ quoted ''<<type missing>>'')]"
    using unknown_event_type [OF c2 u2] a2 by auto
  show ?thesis
    using c 1 2 by simp
qed




text \<open>
  Claim C8, as stated, fails on the code: the events of a complaint carry no
  \<open>mta_response\<close> of their recipient. The branch for complaints (lines 186 to 195) gives
  each recipient its address only, and the \<open>mta_response\<close> of every event stays \<^verbatim>\<open>None\<close>.
\<close>

theorem complaint_events_counterexample:
  "esp_to_anymail_events example_runtime complaint_event (notification ''m3'' [])
     = Inr [complaint_common\<lparr>recipient := JString ''jane@example.com''\<rparr>,
            complaint_common\<lparr>recipient := JString ''richard@example.com''\<rparr>]
   \<and> map mta_response
        (projr (esp_to_anymail_events example_runtime complaint_event (notification ''m3'' [])))
     = [JNull, JNull]"
  by code_simp

text \<open>
  Claim C8, amended. The properties that lines 137 to 174 collect are common to all
  events of a notification: the raw event, the event id (the envelope's message id), the
  timestamp, the message id, the tags and the metadata, with no recipient and no
  \<open>mta_response\<close> yet. When that part has run through, \<^verbatim>\<open>esp_to_anymail_events\<close> returns one
  event per affected recipient, in order: these common properties, the properties of
  the subtype, and the recipient. The affected recipients are the entries of
  \<^verbatim>\<open>bouncedRecipients\<close> for a Bounce, those of \<^verbatim>\<open>complainedRecipients\<close> for a Complaint, the
  \<^verbatim>\<open>recipients\<close> of the detail for a Delivery, and the full recipient list for a Send,
  Reject, Open, Click, Rendering Failure and for an unknown subtype. Only a Bounce gives
  each event an \<open>mta_response\<close> of its own, the diagnostic code of the entry; a Complaint
  takes the address of the entry only, and its events have the \<open>mta_response\<close> \<^verbatim>\<open>None\<close>;
  a Delivery gives every event the same \<open>mta_response\<close>, the SMTP response of the
  detail. So two events of one notification differ in the recipient and, for a Bounce
  only, in \<open>mta_response\<close>.
\<close>

theorem events_share_common_fields:
  assumes common: "common_props rt ses_event sns_message
                     = Inr (common, default_props, ses_event_type, event_object)"
    and full: "all_recipients ses_event = Inr addresses"
  shows
    "(\<forall>bounce bounceType bounceSubType entries.
        ses_event_type = JString ''Bounce'' \<and> event_object = JObject bounce
        \<and> map_of bounce ''bounceType'' = Some bounceType
        \<and> map_of bounce ''bounceSubType'' = Some bounceSubType
        \<and> map_of bounce ''bouncedRecipients'' = Some (JArray (map JObject entries))
        \<and> (\<forall>entry \<in> set entries. map_of entry ''emailAddress'' \<noteq> None)
        \<longrightarrow> esp_to_anymail_events rt ses_event sns_message =
              Inr (map (\<lambda>entry.
                     common\<lparr>event_type := EventType_BOUNCED,
                            description := JString (str rt bounceType @ '': '' @ str rt bounceSubType),
                            reject_reason := Some RejectReason_BOUNCED,
                            recipient := the (map_of entry ''emailAddress''),
                            mta_response := (case map_of entry ''diagnosticCode'' of
                                               Some code \<Rightarrow> code | None \<Rightarrow> JNull)\<rparr>)
                   entries))
     \<and> (\<forall>complaint entries.
        ses_event_type = JString ''Complaint'' \<and> event_object = JObject complaint
        \<and> map_of complaint ''complainedRecipients'' = Some (JArray (map JObject entries))
        \<and> (\<forall>entry \<in> set entries. map_of entry ''emailAddress'' \<noteq> None)
        \<longrightarrow> esp_to_anymail_events rt ses_event sns_message =
              Inr (map (\<lambda>entry.
                     common\<lparr>event_type := EventType_COMPLAINED,
                            description := (case map_of complaint ''complaintFeedbackType'' of
                                              Some v \<Rightarrow> v | None \<Rightarrow> JNull),
                            reject_reason := Some RejectReason_SPAM,
                            user_agent := (case map_of complaint ''userAgent'' of
                                             Some v \<Rightarrow> v | None \<Rightarrow> JNull),
                            recipient := the (map_of entry ''emailAddress'')\<rparr>)
                   entries))
     \<and> (\<forall>delivery recipients.
        ses_event_type = JString ''Delivery'' \<and> event_object = JObject delivery
        \<and> map_of delivery ''recipients'' = Some (JArray recipients)
        \<longrightarrow> esp_to_anymail_events rt ses_event sns_message =
              Inr (map (\<lambda>address.
                     common\<lparr>event_type := EventType_DELIVERED,
                            mta_response := (case map_of delivery ''smtpResponse'' of
                                               Some v \<Rightarrow> v | None \<Rightarrow> JNull),
                            recipient := address\<rparr>)
                   recipients))
     \<and> (ses_event_type = JString ''Send''
        \<longrightarrow> esp_to_anymail_events rt ses_event sns_message =
              Inr (map (\<lambda>address. common\<lparr>event_type := EventType_SENT, recipient := address\<rparr>)
                   addresses))
     \<and> (\<forall>reject reason.
        ses_event_type = JString ''Reject'' \<and> event_object = JObject reject
        \<and> map_of reject ''reason'' = Some reason
        \<longrightarrow> esp_to_anymail_events rt ses_event sns_message =
              Inr (map (\<lambda>address.
                     common\<lparr>event_type := EventType_REJECTED, description := reason,
                            reject_reason := Some RejectReason_BLOCKED, recipient := address\<rparr>)
                   addresses))
     \<and> (\<forall>detail.
        ses_event_type = JString ''Open'' \<and> event_object = JObject detail
        \<longrightarrow> esp_to_anymail_events rt ses_event sns_message =
              Inr (map (\<lambda>address.
                     common\<lparr>event_type := EventType_OPENED,
                            user_agent := (case map_of detail ''userAgent'' of
                                             Some v \<Rightarrow> v | None \<Rightarrow> JNull),
                            recipient := address\<rparr>)
                   addresses))
     \<and> (\<forall>detail.
        ses_event_type = JString ''Click'' \<and> event_object = JObject detail
        \<longrightarrow> esp_to_anymail_events rt ses_event sns_message =
              Inr (map (\<lambda>address.
                     common\<lparr>event_type := EventType_CLICKED,
                            user_agent := (case map_of detail ''userAgent'' of
                                             Some v \<Rightarrow> v | None \<Rightarrow> JNull),
                            click_url := (case map_of detail ''link'' of
                                            Some v \<Rightarrow> v | None \<Rightarrow> JNull),
                            recipient := address\<rparr>)
                   addresses))
     \<and> (\<forall>failure message.
        ses_event_type = JString ''Rendering Failure''
        \<and> subscript ses_event ''failure'' = Inr (JObject failure)
        \<and> map_of failure ''errorMessage'' = Some message
        \<longrightarrow> esp_to_anymail_events rt ses_event sns_message =
              Inr (map (\<lambda>address.
                     common\<lparr>event_type := EventType_FAILED, description := message,
                            recipient := address\<rparr>)
                   addresses))
     \<and> (\<forall>subtype.
        ses_event_type = JString subtype
        \<and> subtype \<notin> {''Bounce'', ''Complaint'', ''Delivery'', ''Send'', ''Reject'', ''Open'',
                       ''Click'', ''Rendering Failure''}
        \<longrightarrow> esp_to_anymail_events rt ses_event sns_message =
              Inr (map (\<lambda>address.
                     common\<lparr>event_type := EventType_UNKNOWN,
                            description := JString (''Unknown SES eventType '' @ quoted subtype),
                            recipient := address\<rparr>)
                   addresses))
     \<and> (\<forall>events. esp_to_anymail_events rt ses_event sns_message = Inr events \<longrightarrow>
          (\<forall>e1 \<in> set events. \<forall>e2 \<in> set events.
              e1\<lparr>recipient := recipient e2, mta_response := mta_response e2\<rparr> = e2
              \<and> (ses_event_type \<noteq> JString ''Bounce'' \<longrightarrow> mta_response e1 = mta_response e2)))
     \<and> esp_event common = ses_event
     \<and> dict_get sns_message ''MessageId'' JNull = Inr (event_id common)
     \<and> parse_timestamp rt sns_message = Inr (timestamp common)
     \<and> (\<exists>mail_object.
          dict_get ses_event ''mail'' (JObject []) = Inr mail_object
          \<and> dict_get mail_object ''messageId'' JNull = Inr (message_id common)
          \<and> recover_tags_and_metadata rt mail_object = Inr (tags common, metadata common))
     \<and> recipient common = JNull
     \<and> mta_response common = JNull"
proof -
  note run = esp_to_anymail_events_common [OF common]
  note dp = common_props_recipients [OF common full]
  have none: "mta_response common = JNull"
    using common_props_Inr [OF common] by blast
  have bounce: "esp_to_anymail_events rt ses_event sns_message =
              Inr (map (\<lambda>entry.
                     common\<lparr>event_type := EventType_BOUNCED,
                            description := JString (str rt bounceType @ '': '' @ str rt bounceSubType),
                            reject_reason := Some RejectReason_BOUNCED,
                            recipient := the (map_of entry ''emailAddress''),
                            mta_response := (case map_of entry ''diagnosticCode'' of
                                               Some code \<Rightarrow> code | None \<Rightarrow> JNull)\<rparr>)
                   entries)"
    if "ses_event_type = JString ''Bounce'' \<and> event_object = JObject bounce
        \<and> map_of bounce ''bounceType'' = Some bounceType
        \<and> map_of bounce ''bounceSubType'' = Some bounceSubType
        \<and> map_of bounce ''bouncedRecipients'' = Some (JArray (map JObject entries))
        \<and> (\<forall>entry \<in> set entries. map_of entry ''emailAddress'' \<noteq> None)"
    for bounce bounceType bounceSubType entries
    using that
    by (simp add: run update_for_event_type_def format_bounce_def iterate_def
        map_exn_bounced_recipients combine_def comp_def)
  have complaint: "esp_to_anymail_events rt ses_event sns_message =
              Inr (map (\<lambda>entry.
                     common\<lparr>event_type := EventType_COMPLAINED,
                            description := (case map_of complaint ''complaintFeedbackType'' of
                                              Some v \<Rightarrow> v | None \<Rightarrow> JNull),
                            reject_reason := Some RejectReason_SPAM,
                            user_agent := (case map_of complaint ''userAgent'' of
                                             Some v \<Rightarrow> v | None \<Rightarrow> JNull),
                            recipient := the (map_of entry ''emailAddress'')\<rparr>)
                   entries)"
    if "ses_event_type = JString ''Complaint'' \<and> event_object = JObject complaint
        \<and> map_of complaint ''complainedRecipients'' = Some (JArray (map JObject entries))
        \<and> (\<forall>entry \<in> set entries. map_of entry ''emailAddress'' \<noteq> None)"
    for complaint entries
    using that
    by (simp add: run update_for_event_type_def iterate_def map_exn_complained_recipients
        combine_def comp_def)
  have delivery: "esp_to_anymail_events rt ses_event sns_message =
              Inr (map (\<lambda>address.
                     common\<lparr>event_type := EventType_DELIVERED,
                            mta_response := (case map_of delivery ''smtpResponse'' of
                                               Some v \<Rightarrow> v | None \<Rightarrow> JNull),
                            recipient := address\<rparr>)
                   recipients)"
    if "ses_event_type = JString ''Delivery'' \<and> event_object = JObject delivery
        \<and> map_of delivery ''recipients'' = Some (JArray recipients)"
    for delivery recipients
    using that
    by (simp add: run update_for_event_type_def iterate_def combine_def comp_def)
  have send: "esp_to_anymail_events rt ses_event sns_message =
              Inr (map (\<lambda>address. common\<lparr>event_type := EventType_SENT, recipient := address\<rparr>)
                   addresses)"
    if "ses_event_type = JString ''Send''"
    using that by (simp add: run update_for_event_type_def dp combine_def comp_def)
  have reject: "esp_to_anymail_events rt ses_event sns_message =
              Inr (map (\<lambda>address.
                     common\<lparr>event_type := EventType_REJECTED, description := reason,
                            reject_reason := Some RejectReason_BLOCKED, recipient := address\<rparr>)
                   addresses)"
    if "ses_event_type = JString ''Reject'' \<and> event_object = JObject reject
        \<and> map_of reject ''reason'' = Some reason"
    for reject reason
    using that by (simp add: run update_for_event_type_def dp combine_def comp_def)
  have opened: "esp_to_anymail_events rt ses_event sns_message =
              Inr (map (\<lambda>address.
                     common\<lparr>event_type := EventType_OPENED,
                            user_agent := (case map_of detail ''userAgent'' of
                                             Some v \<Rightarrow> v | None \<Rightarrow> JNull),
                            recipient := address\<rparr>)
                   addresses)"
    if "ses_event_type = JString ''Open'' \<and> event_object = JObject detail"
    for detail
    using that by (simp add: run update_for_event_type_def dp combine_def comp_def)
  have click: "esp_to_anymail_events rt ses_event sns_message =
              Inr (map (\<lambda>address.
                     common\<lparr>event_type := EventType_CLICKED,
                            user_agent := (case map_of detail ''userAgent'' of
                                             Some v \<Rightarrow> v | None \<Rightarrow> JNull),
                            click_url := (case map_of detail ''link'' of
                                            Some v \<Rightarrow> v | None \<Rightarrow> JNull),
                            recipient := address\<rparr>)
                   addresses)"
    if "ses_event_type = JString ''Click'' \<and> event_object = JObject detail"
    for detail
    using that by (simp add: run update_for_event_type_def dp combine_def comp_def)
  have failed: "esp_to_anymail_events rt ses_event sns_message =
              Inr (map (\<lambda>address.
                     common\<lparr>event_type := EventType_FAILED, description := message,
                            recipient := address\<rparr>)
                   addresses)"
    if "ses_event_type = JString ''Rendering Failure''
        \<and> subscript ses_event ''failure'' = Inr (JObject failure)
        \<and> map_of failure ''errorMessage'' = Some message"
    for failure message
    using that by (simp add: run update_for_event_type_def dp combine_def comp_def)
  have unknown: "esp_to_anymail_events rt ses_event sns_message =
              Inr (map (\<lambda>address.
                     common\<lparr>event_type := EventType_UNKNOWN,
                            description := JString (''Unknown SES eventType '' @ quoted subtype),
                            recipient := address\<rparr>)
                   addresses)"
    if "ses_event_type = JString subtype
        \<and> subtype \<notin> {''Bounce'', ''Complaint'', ''Delivery'', ''Send'', ''Reject'', ''Open'',
                       ''Click'', ''Rendering Failure''}"
    for subtype
    using that by (simp add: run update_for_event_type_def dp combine_def comp_def str_def)
  have pairs: "\<forall>e1 \<in> set events. \<forall>e2 \<in> set events.
              e1\<lparr>recipient := recipient e2, mta_response := mta_response e2\<rparr> = e2
              \<and> (ses_event_type \<noteq> JString ''Bounce'' \<longrightarrow> mta_response e1 = mta_response e2)"
    if "esp_to_anymail_events rt ses_event sns_message = Inr events" for events
    using events_pairwise [OF common that] by blast
  have shared: "esp_event common = ses_event
     \<and> dict_get sns_message ''MessageId'' JNull = Inr (event_id common)
     \<and> parse_timestamp rt sns_message = Inr (timestamp common)
     \<and> (\<exists>mail_object.
          dict_get ses_event ''mail'' (JObject []) = Inr mail_object
          \<and> dict_get mail_object ''messageId'' JNull = Inr (message_id common)
          \<and> recover_tags_and_metadata rt mail_object = Inr (tags common, metadata common))
     \<and> recipient common = JNull
     \<and> mta_response common = JNull"
    using common_props_Inr [OF common] by blast
  show ?thesis
    apply (intro conjI allI impI)
    subgoal by (rule bounce)
    subgoal by (rule complaint)
    subgoal by (rule delivery)
    subgoal by (rule send)
    subgoal by (rule reject)
    subgoal by (rule opened)
    subgoal by (rule click)
    subgoal by (rule failed)
    subgoal by (rule unknown)
    subgoal by (rule pairs)
    using shared by simp_all
qed

theorem events_share_common_fields_witness:
  "esp_to_anymail_events example_runtime (typed_event ''Bounce'' [(''bounce'', JObject bounce_detail)])
       (notification ''m1'' [])
     = Inr [(typed_common ''Bounce'' [(''bounce'', JObject bounce_detail)])\<lparr>event_type := EventType_BOUNCED,
              description := JString ''Permanent: General'',
              reject_reason := Some RejectReason_BOUNCED,
              recipient := JString ''jane@example.com'',
              mta_response := JString ''smtp; 550 5.1.1 user unknown''\<rparr>,
            (typed_common ''Bounce'' [(''bounce'', JObject bounce_detail)])\<lparr>event_type := EventType_BOUNCED,
              description := JString ''Permanent: General'',
              reject_reason := Some RejectReason_BOUNCED,
              recipient := JString ''richard@example.com'',
              mta_response := JNull\<rparr>]
   \<and> esp_to_anymail_events example_runtime (typed_event ''Complaint'' [(''complaint'', JObject complaint_detail)])
       (notification ''m1'' [])
     = Inr [(typed_common ''Complaint'' [(''complaint'', JObject complaint_detail)])\<lparr>event_type := EventType_COMPLAINED, description := JString ''abuse'',
              reject_reason := Some RejectReason_SPAM,
              user_agent := JString ''ExampleCorp Feedback Loop (V0.01)'',
              recipient := JString ''jane@example.com''\<rparr>,
            (typed_common ''Complaint'' [(''complaint'', JObject complaint_detail)])\<lparr>event_type := EventType_COMPLAINED, description := JString ''abuse'',
              reject_reason := Some RejectReason_SPAM,
              user_agent := JString ''ExampleCorp Feedback Loop (V0.01)'',
              recipient := JString ''richard@example.com''\<rparr>]
   \<and> esp_to_anymail_events example_runtime (typed_event ''Delivery'' [(''delivery'', JObject [(''smtpResponse'', JString ''250 OK''), (''recipients'', JArray [JString ''b@x.com''])])])
       (notification ''m1'' [])
     = Inr [(typed_common ''Delivery'' [(''delivery'', JObject [(''smtpResponse'', JString ''250 OK''), (''recipients'', JArray [JString ''b@x.com''])])])\<lparr>event_type := EventType_DELIVERED,
              mta_response := JString ''250 OK'', recipient := JString ''b@x.com''\<rparr>]
   \<and> esp_to_anymail_events example_runtime (typed_event ''Send'' [])
       (notification ''m1'' [])
     = Inr [(typed_common ''Send'' [])\<lparr>event_type := EventType_SENT, recipient := JString ''a@x.com''\<rparr>,
            (typed_common ''Send'' [])\<lparr>event_type := EventType_SENT, recipient := JString ''b@x.com''\<rparr>]
   \<and> esp_to_anymail_events example_runtime (typed_event ''Reject'' [(''reject'', JObject [(''reason'', JString ''Bad content'')])])
       (notification ''m1'' [])
     = Inr [(typed_common ''Reject'' [(''reject'', JObject [(''reason'', JString ''Bad content'')])])\<lparr>event_type := EventType_REJECTED, description := JString ''Bad content'',
              reject_reason := Some RejectReason_BLOCKED, recipient := JString ''a@x.com''\<rparr>,
            (typed_common ''Reject'' [(''reject'', JObject [(''reason'', JString ''Bad content'')])])\<lparr>event_type := EventType_REJECTED, description := JString ''Bad content'',
              reject_reason := Some RejectReason_BLOCKED, recipient := JString ''b@x.com''\<rparr>]
   \<and> esp_to_anymail_events example_runtime (typed_event ''Open'' [(''open'', JObject [(''userAgent'', JString ''Mozilla/5.0'')])])
       (notification ''m1'' [])
     = Inr [(typed_common ''Open'' [(''open'', JObject [(''userAgent'', JString ''Mozilla/5.0'')])])\<lparr>event_type := EventType_OPENED, user_agent := JString ''Mozilla/5.0'',
              recipient := JString ''a@x.com''\<rparr>,
            (typed_common ''Open'' [(''open'', JObject [(''userAgent'', JString ''Mozilla/5.0'')])])\<lparr>event_type := EventType_OPENED, user_agent := JString ''Mozilla/5.0'',
              recipient := JString ''b@x.com''\<rparr>]
   \<and> esp_to_anymail_events example_runtime (typed_event ''Click'' [(''click'', JObject [(''userAgent'', JString ''Mozilla/5.0''), (''link'', JString ''https://example.com/'')])])
       (notification ''m1'' [])
     = Inr [(typed_common ''Click'' [(''click'', JObject [(''userAgent'', JString ''Mozilla/5.0''), (''link'', JString ''https://example.com/'')])])\<lparr>event_type := EventType_CLICKED, user_agent := JString ''Mozilla/5.0'',
              click_url := JString ''https://example.com/'', recipient := JString ''a@x.com''\<rparr>,
            (typed_common ''Click'' [(''click'', JObject [(''userAgent'', JString ''Mozilla/5.0''), (''link'', JString ''https://example.com/'')])])\<lparr>event_type := EventType_CLICKED, user_agent := JString ''Mozilla/5.0'',
              click_url := JString ''https://example.com/'', recipient := JString ''b@x.com''\<rparr>]
   \<and> esp_to_anymail_events example_runtime (typed_event ''Rendering Failure'' [(''failure'', JObject [(''errorMessage'', JString ''Attribute is not present'')])])
       (notification ''m1'' [])
     = Inr [(typed_common ''Rendering Failure'' [(''failure'', JObject [(''errorMessage'', JString ''Attribute is not present'')])])\<lparr>event_type := EventType_FAILED,
              description := JString ''Attribute is not present'', recipient := JString ''a@x.com''\<rparr>,
            (typed_common ''Rendering Failure'' [(''failure'', JObject [(''errorMessage'', JString ''Attribute is not present'')])])\<lparr>event_type := EventType_FAILED,
              description := JString ''Attribute is not present'', recipient := JString ''b@x.com''\<rparr>]
   \<and> esp_to_anymail_events example_runtime (typed_event ''Subscription'' [])
       (notification ''m1'' [])
     = Inr [(typed_common ''Subscription'' [])\<lparr>event_type := EventType_UNKNOWN,
              description := JString (''Unknown SES eventType '' @ quoted ''Subscription''), recipient := JString ''a@x.com''\<rparr>,
            (typed_common ''Subscription'' [])\<lparr>event_type := EventType_UNKNOWN,
              description := JString (''Unknown SES eventType '' @ quoted ''Subscription''), recipient := JString ''b@x.com''\<rparr>]"
proof -
  have c_bounce: "common_props example_runtime (typed_event ''Bounce'' [(''bounce'', JObject bounce_detail)])
       (notification ''m1'' [])
     = Inr (typed_common ''Bounce'' [(''bounce'', JObject bounce_detail)], two_recipients, JString ''Bounce'', JObject bounce_detail)"
    and f_bounce: "all_recipients (typed_event ''Bounce'' [(''bounce'', JObject bounce_detail)])
     = Inr [JString ''a@x.com'', JString ''b@x.com'']"
    and a_bounce: "JString ''Bounce'' = JString ''Bounce'' \<and> JObject bounce_detail = JObject bounce_detail
      \<and> map_of bounce_detail ''bounceType'' = Some (JString ''Permanent'')
      \<and> map_of bounce_detail ''bounceSubType'' = Some (JString ''General'')
      \<and> map_of bounce_detail ''bouncedRecipients'' = Some (JArray (map JObject bounce_entries))
      \<and> (\<forall>entry \<in> set bounce_entries. map_of entry ''emailAddress'' \<noteq> None)"
    by code_simp+
  have r_bounce: "esp_to_anymail_events example_runtime (typed_event ''Bounce'' [(''bounce'', JObject bounce_detail)])
       (notification ''m1'' [])
     = Inr [(typed_common ''Bounce'' [(''bounce'', JObject bounce_detail)])\<lparr>event_type := EventType_BOUNCED,
              description := JString ''Permanent: General'',
              reject_reason := Some RejectReason_BOUNCED,
              recipient := JString ''jane@example.com'',
              mta_response := JString ''smtp; 550 5.1.1 user unknown''\<rparr>,
            (typed_common ''Bounce'' [(''bounce'', JObject bounce_detail)])\<lparr>event_type := EventType_BOUNCED,
              description := JString ''Permanent: General'',
              reject_reason := Some RejectReason_BOUNCED,
              recipient := JString ''richard@example.com'',
              mta_response := JNull\<rparr>]"
    using events_share_common_fields [OF c_bounce f_bounce, THEN conjunct1, rule_format, OF a_bounce]
    by (simp add: typed_common_def bounce_entries_def str_def)
  have c_complaint: "common_props example_runtime (typed_event ''Complaint'' [(''complaint'', JObject complaint_detail)])
       (notification ''m1'' [])
     = Inr (typed_common ''Complaint'' [(''complaint'', JObject complaint_detail)], two_recipients, JString ''Complaint'', JObject complaint_detail)"
    and f_complaint: "all_recipients (typed_event ''Complaint'' [(''complaint'', JObject complaint_detail)])
     = Inr [JString ''a@x.com'', JString ''b@x.com'']"
    and a_complaint: "JString ''Complaint'' = JString ''Complaint'' \<and> JObject complaint_detail = JObject complaint_detail
      \<and> map_of complaint_detail ''complainedRecipients'' = Some (JArray (map JObject complaint_entries))
      \<and> (\<forall>entry \<in> set complaint_entries. map_of entry ''emailAddress'' \<noteq> None)"
    by code_simp+
  have r_complaint: "esp_to_anymail_events example_runtime (typed_event ''Complaint'' [(''complaint'', JObject complaint_detail)])
       (notification ''m1'' [])
     = Inr [(typed_common ''Complaint'' [(''complaint'', JObject complaint_detail)])\<lparr>event_type := EventType_COMPLAINED, description := JString ''abuse'',
              reject_reason := Some RejectReason_SPAM,
              user_agent := JString ''ExampleCorp Feedback Loop (V0.01)'',
              recipient := JString ''jane@example.com''\<rparr>,
            (typed_common ''Complaint'' [(''complaint'', JObject complaint_detail)])\<lparr>event_type := EventType_COMPLAINED, description := JString ''abuse'',
              reject_reason := Some RejectReason_SPAM,
              user_agent := JString ''ExampleCorp Feedback Loop (V0.01)'',
              recipient := JString ''richard@example.com''\<rparr>]"
    using events_share_common_fields [OF c_complaint f_complaint, THEN conjunct2, THEN conjunct1, rule_format, OF a_complaint]
    by (simp add: typed_common_def complaint_entries_def complaint_detail_def)
  have c_delivery: "common_props example_runtime (typed_event ''Delivery'' [(''delivery'', JObject [(''smtpResponse'', JString ''250 OK''), (''recipients'', JArray [JString ''b@x.com''])])])
       (notification ''m1'' [])
     = Inr (typed_common ''Delivery'' [(''delivery'', JObject [(''smtpResponse'', JString ''250 OK''), (''recipients'', JArray [JString ''b@x.com''])])], two_recipients, JString ''Delivery'', JObject [(''smtpResponse'', JString ''250 OK''), (''recipients'', JArray [JString ''b@x.com''])])"
    and f_delivery: "all_recipients (typed_event ''Delivery'' [(''delivery'', JObject [(''smtpResponse'', JString ''250 OK''), (''recipients'', JArray [JString ''b@x.com''])])])
     = Inr [JString ''a@x.com'', JString ''b@x.com'']"
    and a_delivery: "JString ''Delivery'' = JString ''Delivery''
      \<and> JObject [(''smtpResponse'', JString ''250 OK''), (''recipients'', JArray [JString ''b@x.com''])] = JObject [(''smtpResponse'', JString ''250 OK''), (''recipients'', JArray [JString ''b@x.com''])]
      \<and> map_of [(''smtpResponse'', JString ''250 OK''), (''recipients'', JArray [JString ''b@x.com''])] ''recipients'' = Some (JArray [JString ''b@x.com''])"
    by code_simp+
  have r_delivery: "esp_to_anymail_events example_runtime (typed_event ''Delivery'' [(''delivery'', JObject [(''smtpResponse'', JString ''250 OK''), (''recipients'', JArray [JString ''b@x.com''])])])
       (notification ''m1'' [])
     = Inr [(typed_common ''Delivery'' [(''delivery'', JObject [(''smtpResponse'', JString ''250 OK''), (''recipients'', JArray [JString ''b@x.com''])])])\<lparr>event_type := EventType_DELIVERED,
              mta_response := JString ''250 OK'', recipient := JString ''b@x.com''\<rparr>]"
    using events_share_common_fields [OF c_delivery f_delivery, THEN conjunct2, THEN conjunct2, THEN conjunct1, rule_format, OF a_delivery]
    by (simp add: typed_common_def)
  have c_send: "common_props example_runtime (typed_event ''Send'' [])
       (notification ''m1'' [])
     = Inr (typed_common ''Send'' [], two_recipients, JString ''Send'', JObject [])"
    and f_send: "all_recipients (typed_event ''Send'' [])
     = Inr [JString ''a@x.com'', JString ''b@x.com'']"
    and a_send: "JString ''Send'' = JString ''Send''"
    by code_simp+
  have r_send: "esp_to_anymail_events example_runtime (typed_event ''Send'' [])
       (notification ''m1'' [])
     = Inr [(typed_common ''Send'' [])\<lparr>event_type := EventType_SENT, recipient := JString ''a@x.com''\<rparr>,
            (typed_common ''Send'' [])\<lparr>event_type := EventType_SENT, recipient := JString ''b@x.com''\<rparr>]"
    using events_share_common_fields [OF c_send f_send, THEN conjunct2, THEN conjunct2, THEN conjunct2, THEN conjunct1, rule_format, OF a_send]
    by (simp add: typed_common_def)
  have c_reject: "common_props example_runtime (typed_event ''Reject'' [(''reject'', JObject [(''reason'', JString ''Bad content'')])])
       (notification ''m1'' [])
     = Inr (typed_common ''Reject'' [(''reject'', JObject [(''reason'', JString ''Bad content'')])], two_recipients, JString ''Reject'', JObject [(''reason'', JString ''Bad content'')])"
    and f_reject: "all_recipients (typed_event ''Reject'' [(''reject'', JObject [(''reason'', JString ''Bad content'')])])
     = Inr [JString ''a@x.com'', JString ''b@x.com'']"
    and a_reject: "JString ''Reject'' = JString ''Reject'' \<and> JObject [(''reason'', JString ''Bad content'')] = JObject [(''reason'', JString ''Bad content'')]
      \<and> map_of [(''reason'', JString ''Bad content'')] ''reason'' = Some (JString ''Bad content'')"
    by code_simp+
  have r_reject: "esp_to_anymail_events example_runtime (typed_event ''Reject'' [(''reject'', JObject [(''reason'', JString ''Bad content'')])])
       (notification ''m1'' [])
     = Inr [(typed_common ''Reject'' [(''reject'', JObject [(''reason'', JString ''Bad content'')])])\<lparr>event_type := EventType_REJECTED, description := JString ''Bad content'',
              reject_reason := Some RejectReason_BLOCKED, recipient := JString ''a@x.com''\<rparr>,
            (typed_common ''Reject'' [(''reject'', JObject [(''reason'', JString ''Bad content'')])])\<lparr>event_type := EventType_REJECTED, description := JString ''Bad content'',
              reject_reason := Some RejectReason_BLOCKED, recipient := JString ''b@x.com''\<rparr>]"
    using events_share_common_fields [OF c_reject f_reject, THEN conjunct2, THEN conjunct2, THEN conjunct2, THEN conjunct2, THEN conjunct1, rule_format, OF a_reject]
    by (simp add: typed_common_def)
  have c_opened: "common_props example_runtime (typed_event ''Open'' [(''open'', JObject [(''userAgent'', JString ''Mozilla/5.0'')])])
       (notification ''m1'' [])
     = Inr (typed_common ''Open'' [(''open'', JObject [(''userAgent'', JString ''Mozilla/5.0'')])], two_recipients, JString ''Open'', JObject [(''userAgent'', JString ''Mozilla/5.0'')])"
    and f_opened: "all_recipients (typed_event ''Open'' [(''open'', JObject [(''userAgent'', JString ''Mozilla/5.0'')])])
     = Inr [JString ''a@x.com'', JString ''b@x.com'']"
    and a_opened: "JString ''Open'' = JString ''Open'' \<and> JObject [(''userAgent'', JString ''Mozilla/5.0'')] = JObject [(''userAgent'', JString ''Mozilla/5.0'')]"
    by code_simp+
  have r_opened: "esp_to_anymail_events example_runtime (typed_event ''Open'' [(''open'', JObject [(''userAgent'', JString ''Mozilla/5.0'')])])
       (notification ''m1'' [])
     = Inr [(typed_common ''Open'' [(''open'', JObject [(''userAgent'', JString ''Mozilla/5.0'')])])\<lparr>event_type := EventType_OPENED, user_agent := JString ''Mozilla/5.0'',
              recipient := JString ''a@x.com''\<rparr>,
            (typed_common ''Open'' [(''open'', JObject [(''userAgent'', JString ''Mozilla/5.0'')])])\<lparr>event_type := EventType_OPENED, user_agent := JString ''Mozilla/5.0'',
              recipient := JString ''b@x.com''\<rparr>]"
    using events_share_common_fields [OF c_opened f_opened, THEN conjunct2, THEN conjunct2, THEN conjunct2, THEN conjunct2, THEN conjunct2, THEN conjunct1, rule_format, OF a_opened]
    by (simp add: typed_common_def)
  have c_click: "common_props example_runtime (typed_event ''Click'' [(''click'', JObject [(''userAgent'', JString ''Mozilla/5.0''), (''link'', JString ''https://example.com/'')])])
       (notification ''m1'' [])
     = Inr (typed_common ''Click'' [(''click'', JObject [(''userAgent'', JString ''Mozilla/5.0''), (''link'', JString ''https://example.com/'')])], two_recipients, JString ''Click'', JObject [(''userAgent'', JString ''Mozilla/5.0''), (''link'', JString ''https://example.com/'')])"
    and f_click: "all_recipients (typed_event ''Click'' [(''click'', JObject [(''userAgent'', JString ''Mozilla/5.0''), (''link'', JString ''https://example.com/'')])])
     = Inr [JString ''a@x.com'', JString ''b@x.com'']"
    and a_click: "JString ''Click'' = JString ''Click''
      \<and> JObject [(''userAgent'', JString ''Mozilla/5.0''), (''link'', JString ''https://example.com/'')] = JObject [(''userAgent'', JString ''Mozilla/5.0''), (''link'', JString ''https://example.com/'')]"
    by code_simp+
  have r_click: "esp_to_anymail_events example_runtime (typed_event ''Click'' [(''click'', JObject [(''userAgent'', JString ''Mozilla/5.0''), (''link'', JString ''https://example.com/'')])])
       (notification ''m1'' [])
     = Inr [(typed_common ''Click'' [(''click'', JObject [(''userAgent'', JString ''Mozilla/5.0''), (''link'', JString ''https://example.com/'')])])\<lparr>event_type := EventType_CLICKED, user_agent := JString ''Mozilla/5.0'',
              click_url := JString ''https://example.com/'', recipient := JString ''a@x.com''\<rparr>,
            (typed_common ''Click'' [(''click'', JObject [(''userAgent'', JString ''Mozilla/5.0''), (''link'', JString ''https://example.com/'')])])\<lparr>event_type := EventType_CLICKED, user_agent := JString ''Mozilla/5.0'',
              click_url := JString ''https://example.com/'', recipient := JString ''b@x.com''\<rparr>]"
    using events_share_common_fields [OF c_click f_click, THEN conjunct2, THEN conjunct2, THEN conjunct2, THEN conjunct2, THEN conjunct2, THEN conjunct2, THEN conjunct1, rule_format, OF a_click]
    by (simp add: typed_common_def)
  have c_failed: "common_props example_runtime (typed_event ''Rendering Failure'' [(''failure'', JObject [(''errorMessage'', JString ''Attribute is not present'')])])
       (notification ''m1'' [])
     = Inr (typed_common ''Rendering Failure'' [(''failure'', JObject [(''errorMessage'', JString ''Attribute is not present'')])], two_recipients, JString ''Rendering Failure'', JObject [])"
    and f_failed: "all_recipients (typed_event ''Rendering Failure'' [(''failure'', JObject [(''errorMessage'', JString ''Attribute is not present'')])])
     = Inr [JString ''a@x.com'', JString ''b@x.com'']"
    and a_failed: "JString ''Rendering Failure'' = JString ''Rendering Failure''
      \<and> subscript (typed_event ''Rendering Failure'' [(''failure'', JObject [(''errorMessage'', JString ''Attribute is not present'')])]) ''failure''
          = Inr (JObject [(''errorMessage'', JString ''Attribute is not present'')])
      \<and> map_of [(''errorMessage'', JString ''Attribute is not present'')] ''errorMessage'' = Some (JString ''Attribute is not present'')"
    by code_simp+
  have r_failed: "esp_to_anymail_events example_runtime (typed_event ''Rendering Failure'' [(''failure'', JObject [(''errorMessage'', JString ''Attribute is not present'')])])
       (notification ''m1'' [])
     = Inr [(typed_common ''Rendering Failure'' [(''failure'', JObject [(''errorMessage'', JString ''Attribute is not present'')])])\<lparr>event_type := EventType_FAILED,
              description := JString ''Attribute is not present'', recipient := JString ''a@x.com''\<rparr>,
            (typed_common ''Rendering Failure'' [(''failure'', JObject [(''errorMessage'', JString ''Attribute is not present'')])])\<lparr>event_type := EventType_FAILED,
              description := JString ''Attribute is not present'', recipient := JString ''b@x.com''\<rparr>]"
    using events_share_common_fields [OF c_failed f_failed, THEN conjunct2, THEN conjunct2, THEN conjunct2, THEN conjunct2, THEN conjunct2, THEN conjunct2, THEN conjunct2, THEN conjunct1, rule_format, OF a_failed]
    by (simp add: typed_common_def)
  have c_unknown: "common_props example_runtime (typed_event ''Subscription'' [])
       (notification ''m1'' [])
     = Inr (typed_common ''Subscription'' [], two_recipients, JString ''Subscription'', JObject [])"
    and f_unknown: "all_recipients (typed_event ''Subscription'' [])
     = Inr [JString ''a@x.com'', JString ''b@x.com'']"
    and a_unknown: "JString ''Subscription'' = JString ''Subscription''
      \<and> ''Subscription'' \<notin> {''Bounce'', ''Complaint'', ''Delivery'', ''Send'', ''Reject'', ''Open'',
                       ''Click'', ''Rendering Failure''}"
    by code_simp+
  have r_unknown: "esp_to_anymail_events example_runtime (typed_event ''Subscription'' [])
       (notification ''m1'' [])
     = Inr [(typed_common ''Subscription'' [])\<lparr>event_type := EventType_UNKNOWN,
              description := JString (''Unknown SES eventType '' @ quoted ''Subscription''), recipient := JString ''a@x.com''\<rparr>,
            (typed_common ''Subscription'' [])\<lparr>event_type := EventType_UNKNOWN,
              description := JString (''Unknown SES eventType '' @ quoted ''Subscription''), recipient := JString ''b@x.com''\<rparr>]"
    using events_share_common_fields [OF c_unknown f_unknown, THEN conjunct2, THEN conjunct2, THEN conjunct2, THEN conjunct2, THEN conjunct2, THEN conjunct2, THEN conjunct2, THEN conjunct2, THEN conjunct1, rule_format, OF a_unknown]
    by (simp add: typed_common_def)
  show ?thesis
    using r_bounce r_complaint r_delivery r_send r_reject r_opened r_click r_failed r_unknown by simp
qed

section \<open>The example scenario of the spec\<close>

text \<open>
  A Notification whose header and body agree and whose message reports a delivery to
  two recipients: \<^verbatim>\<open>post\<close> answers 200, decodes the body once, fetches nothing and hands
  two DELIVERED events to the signal, one per recipient, each with the SMTP response.
  The same request to a view with a shared secret, without an \<^verbatim>\<open>Authorization\<close> header,
  is answered 401 with the challenge, and nothing else happens.
\<close>

lemma delivery_scenario:
  \<open>post esp_to_anymail_events example_runtime view_without_secret
       (arriving (notification_body ''m1'' delivery_message) (sns_headers ''Notification'' ''m1''))
     = (Inr \<lparr>status = 200, headers = []\<rparr>,
        (decoded (arriving (notification_body ''m1'' delivery_message)
                    (sns_headers ''Notification'' ''m1''))
           (notification ''m1'' delivery_message))
          \<lparr>signals_sent := [delivery_common\<lparr>recipient := JString ''a@x.com''\<rparr>,
                            delivery_common\<lparr>recipient := JString ''b@x.com''\<rparr>]\<rparr>)
   \<and> post esp_to_anymail_events example_runtime view_with_secret
       (arriving (notification_body ''m1'' delivery_message) (sns_headers ''Notification'' ''m1''))
     = (Inr \<lparr>status = 401,
              headers = [(''WWW-Authenticate'', ''Basic realm="Anymail WEBHOOK_SECRET"'')]\<rparr>,
        arriving (notification_body ''m1'' delivery_message) (sns_headers ''Notification'' ''m1''))\<close>
  by code_simp
text \<open>
  A SubscriptionConfirmation sent with the shared secret: \<^verbatim>\<open>post\<close> answers 200, fetches
  the confirmation URL once and hands no event to the signal.
\<close>

lemma subscription_scenario:
  "post esp_to_anymail_events example_runtime view_with_secret
       (arriving subscription_body
          ((''HTTP_AUTHORIZATION'', ''Basic c25zOnMzY3JldA=='')
           # sns_headers ''SubscriptionConfirmation'' ''165545c9''))
     = (Inr \<lparr>status = 200, headers = []\<rparr>,
        (decoded (arriving subscription_body
                    ((''HTTP_AUTHORIZATION'', ''Basic c25zOnMzY3JldA=='')
                     # sns_headers ''SubscriptionConfirmation'' ''165545c9''))
           (JObject subscription))
          \<lparr>http_gets := [JString
             ''https://sns.us-east-1.amazonaws.com/?Action=ConfirmSubscription&Token=2336412f37fb'']\<rparr>)"
  by code_simp

end
